theory Spec2Isabelle
  imports Main "HOL-Library.AList"
begin

text \<open>
  A model of the storage layer of the user-management library: the two storage adapters
  (\<^verbatim>\<open>MemoryAdapter\<close>, \<^verbatim>\<open>FileSystemAdapter\<close>) with their transactions, list queries and
  user-role associations, the \<^verbatim>\<open>HookManager\<close>, and the manager methods that wrap an
  adapter call in pre- and post-hooks.  Every method is a function of the adapter's
  state that returns the error it throws or its value with the state after the call.
  The operations of the memory adapter carry the prefix \<open>mem_\<close>, those of the
  file-system adapter the prefix \<open>fs_\<close>.
\<close>

section \<open>JavaScript values and objects\<close>

text \<open>
  The adapters store plain JavaScript objects and read them with dynamic operations
  (\<^verbatim>\<open>user[key]\<close>, object spread, \<^verbatim>\<open>JSON.stringify\<close>), so an entity is modelled
  as what it is at run time: a list of properties in insertion order.  Numbers are
  integers (no floating point), a \<^verbatim>\<open>Date\<close> carries its time value in milliseconds.
\<close>

datatype jsval =
    JUndefined
  | JNull
  | JBool bool
  | JNum int
  | JStr string
  | JDate nat
  | JObj "(string \<times> jsval) list"

type_synonym obj = "(string \<times> jsval) list"

text \<open>\<^verbatim>\<open>o[key]\<close>: a property that is absent reads as \<^verbatim>\<open>undefined\<close>.\<close>

definition getProp :: "obj \<Rightarrow> string \<Rightarrow> jsval" where
  "getProp ob key = (case map_of ob key of None \<Rightarrow> JUndefined | Some v \<Rightarrow> v)"

text \<open>
  \<^verbatim>\<open>{...a, ...b}\<close>: the properties of \<open>b\<close> are written onto those of \<open>a\<close> one by one;
  a key that \<open>a\<close> already has keeps its place and takes the new value.
\<close>

definition spread :: "obj \<Rightarrow> obj \<Rightarrow> obj" where
  "spread a b = fold (\<lambda>(k, v) acc. AList.update k v acc) b a"

text \<open>
  \<^verbatim>\<open>a === b\<close>.  Primitives are compared by value.  Two objects (a \<^verbatim>\<open>Date\<close>, a tag map)
  are equal only when they are the same object; the model keeps no object identity and
  takes a value built by the caller to be a different object from every stored one.
\<close>

fun strict_eq :: "jsval \<Rightarrow> jsval \<Rightarrow> bool" where
  "strict_eq JUndefined JUndefined = True"
| "strict_eq JNull JNull = True"
| "strict_eq (JBool a) (JBool b) = (a = b)"
| "strict_eq (JNum a) (JNum b) = (a = b)"
| "strict_eq (JStr a) (JStr b) = (a = b)"
| "strict_eq _ _ = False"

text \<open>Strings are ordered by their code units, lexicographically.\<close>

fun str_lt :: "string \<Rightarrow> string \<Rightarrow> bool" where
  "str_lt [] [] = False"
| "str_lt [] (y # ys) = True"
| "str_lt (x # xs) [] = False"
| "str_lt (x # xs) (y # ys) =
     (if (of_char x :: nat) < of_char y then True
      else if (of_char y :: nat) < of_char x then False
      else str_lt xs ys)"

text \<open>
  \<^verbatim>\<open>a < b\<close> on two values of one kind; plain objects both convert to the same string
  and are never below one another.  Operands of different kinds are taken as not
  comparable.
\<close>

fun js_lt :: "jsval \<Rightarrow> jsval \<Rightarrow> bool" where
  "js_lt (JStr a) (JStr b) = str_lt a b"
| "js_lt (JNum a) (JNum b) = (a < b)"
| "js_lt (JBool a) (JBool b) = (\<not> a \<and> b)"
| "js_lt (JDate a) (JDate b) = (a < b)"
| "js_lt _ _ = False"

text \<open>\<^verbatim>\<open>!!v\<close> and \<^verbatim>\<open>typeof v\<close>.\<close>

fun truthy :: "jsval \<Rightarrow> bool" where
  "truthy JUndefined = False"
| "truthy JNull = False"
| "truthy (JBool b) = b"
| "truthy (JNum n) = (n \<noteq> 0)"
| "truthy (JStr s) = (s \<noteq> [])"
| "truthy (JDate t) = True"
| "truthy (JObj ob) = True"

fun typeof :: "jsval \<Rightarrow> string" where
  "typeof JUndefined = ''undefined''"
| "typeof JNull = ''object''"
| "typeof (JBool b) = ''boolean''"
| "typeof (JNum n) = ''number''"
| "typeof (JStr s) = ''string''"
| "typeof (JDate t) = ''object''"
| "typeof (JObj ob) = ''object''"

text \<open>
  \<^verbatim>\<open>xs.slice(start, end)\<close>: a negative index counts from the end, and both indices are
  clamped to the array.
\<close>

definition slice :: "'a list \<Rightarrow> int \<Rightarrow> int \<Rightarrow> 'a list" where
  "slice xs start fin =
     (let len = int (length xs);
          k = (if start < 0 then max (len + start) 0 else min start len);
          final = (if fin < 0 then max (len + fin) 0 else min fin len)
      in take (nat (final - k)) (drop (nat k) xs))"

section \<open>Types of the library (types/index.ts)\<close>

datatype sortOrder = Asc | Desc

record QueryOptions =
  qo_filter :: "obj option"
  qo_sort :: "(string \<times> sortOrder) list option"
  qo_limit :: "int option"
  qo_offset :: "int option"
  qo_include :: "string list option"

record UserRole =
  userId :: string
  roleId :: string
  createdAt :: jsval

record ValidationError =
  field :: string
  message :: string

text \<open>The errors the adapters throw, by their message.\<close>

datatype error =
    ValidationFailed "string list"
  | TransactionAlreadyInProgress
  | NoTransactionInProgress
  | UserOrRoleNotFound

record QueryResult =
  items :: "obj list"
  total :: nat

text \<open>
  The adapters validate through the static methods of the \<^verbatim>\<open>Validator\<close> class.  Every
  operation below takes the validator as a record of these four methods, so that what
  is proved of an operation for all validators holds for any validation verdict; the
  class itself is \<open>staticValidator\<close>.  (Its fifth method, \<^verbatim>\<open>validateTag\<close>, is called by
  no adapter.)
\<close>

record Validator =
  validateId :: "string \<Rightarrow> ValidationError option"
  validateUser :: "obj \<Rightarrow> ValidationError list"
  validateRole :: "obj \<Rightarrow> ValidationError list"
  validateQueryOptions :: "QueryOptions option \<Rightarrow> ValidationError option"

section \<open>Validator (utils/validation.ts)\<close>

text \<open>
  The email pattern \<^verbatim>\<open>/^[^\s@]+@[^\s@]+\.[^\s@]+$/\<close>.  A string matches when it is a
  non-empty local part, an \<^verbatim>\<open>@\<close>, and a domain that holds a dot with at least one
  character on each side, where no character of the local part or of the domain is
  white space or an \<^verbatim>\<open>@\<close>.  A character is a code unit below 256; of those
  \<^verbatim>\<open>\s\<close> matches tab, line feed, vertical tab, form feed, carriage return, space and the
  no-break space.
\<close>

definition isSpace :: "char \<Rightarrow> bool" where
  "isSpace c = ((of_char c :: nat) \<in> {9, 10, 11, 12, 13, 32, 160})"

definition notSpaceOrAt :: "char \<Rightarrow> bool" where
  "notSpaceOrAt c = (\<not> isSpace c \<and> c \<noteq> CHR ''@'')"

definition emailPattern :: "string \<Rightarrow> bool" where
  "emailPattern s =
     (let localPart = takeWhile (\<lambda>c. c \<noteq> CHR ''@'') s;
          rest = dropWhile (\<lambda>c. c \<noteq> CHR ''@'') s;
          domainPart = tl rest
      in rest \<noteq> [] \<and> localPart \<noteq> [] \<and> list_all notSpaceOrAt localPart
         \<and> list_all notSpaceOrAt domainPart \<and> CHR ''.'' \<in> set (tl (butlast domainPart)))"

text \<open>\<^verbatim>\<open>Validator.validateUser\<close>: the errors in the order they are pushed.\<close>

definition Validator_validateUser :: "obj \<Rightarrow> ValidationError list" where
  "Validator_validateUser user =
     (if \<not> truthy (getProp user ''username'')
        then [\<lparr>field = ''username'', message = ''Username is required''\<rparr>]
      else if typeof (getProp user ''username'') \<noteq> ''string''
        then [\<lparr>field = ''username'', message = ''Username must be a string''\<rparr>]
      else [])
     @ (if \<not> truthy (getProp user ''email'')
          then [\<lparr>field = ''email'', message = ''Email is required''\<rparr>]
        else (case getProp user ''email'' of
                JStr email \<Rightarrow>
                  if \<not> emailPattern email
                    then [\<lparr>field = ''email'', message = ''Email is not valid''\<rparr>]
                  else []
              | _ \<Rightarrow> [\<lparr>field = ''email'', message = ''Email must be a string''\<rparr>]))
     @ (if truthy (getProp user ''tags'') \<and> typeof (getProp user ''tags'') \<noteq> ''object''
          then [\<lparr>field = ''tags'', message = ''Tags must be an object''\<rparr>]
        else [])"

definition Validator_validateRole :: "obj \<Rightarrow> ValidationError list" where
  "Validator_validateRole role =
     (if \<not> truthy (getProp role ''name'')
        then [\<lparr>field = ''name'', message = ''Role name is required''\<rparr>]
      else if typeof (getProp role ''name'') \<noteq> ''string''
        then [\<lparr>field = ''name'', message = ''Role name must be a string''\<rparr>]
      else [])
     @ (if truthy (getProp role ''description'') \<and> typeof (getProp role ''description'') \<noteq> ''string''
          then [\<lparr>field = ''description'', message = ''Description must be a string''\<rparr>]
        else [])
     @ (if truthy (getProp role ''tags'') \<and> typeof (getProp role ''tags'') \<noteq> ''object''
          then [\<lparr>field = ''tags'', message = ''Tags must be an object''\<rparr>]
        else [])"

text \<open>
  \<^verbatim>\<open>Validator.validateId\<close>: the adapters pass it a string, which is falsy when empty.
\<close>

definition Validator_validateId :: "string \<Rightarrow> ValidationError option" where
  "Validator_validateId ident =
     (if ident = [] then Some \<lparr>field = ''id'', message = ''ID is required''\<rparr> else None)"

text \<open>
  \<^verbatim>\<open>Validator.validateQueryOptions\<close> rejects a truthy value that is not an object; the
  options of a list operation are an object or \<^verbatim>\<open>undefined\<close>.
\<close>

definition Validator_validateQueryOptions :: "QueryOptions option \<Rightarrow> ValidationError option" where
  "Validator_validateQueryOptions options =
     (case options of
        None \<Rightarrow> None
      | Some opts \<Rightarrow> None)"

definition staticValidator :: Validator where
  "staticValidator =
     \<lparr>validateId = Validator_validateId,
      validateUser = Validator_validateUser,
      validateRole = Validator_validateRole,
      validateQueryOptions = Validator_validateQueryOptions\<rparr>"

section \<open>IdGenerator (utils/idGenerator.ts)\<close>

text \<open>
  \<^verbatim>\<open>IdGenerator.generate()\<close> increments the static counter and returns
  \<^verbatim>\<open>`${timestamp}-${random}-${counter}`\<close>: three numbers in decimal, joined by hyphens.
  The time \<^verbatim>\<open>Date.now()\<close> and the number \<^verbatim>\<open>Math.floor(Math.random() * 1000)\<close> are inputs;
  the result is the identifier with the counter after the call.  The adapter operations
  that create an entity take the identifier drawn for them as an argument.
\<close>

definition digitChar :: "nat \<Rightarrow> char" where
  "digitChar d = ''0123456789'' ! d"

fun decimal :: "nat \<Rightarrow> string" where
  "decimal n = (if n < 10 then [digitChar n] else decimal (n div 10) @ [digitChar (n mod 10)])"

declare decimal.simps [simp del]

definition IdGenerator_generate :: "nat \<Rightarrow> nat \<Rightarrow> nat \<Rightarrow> string \<times> nat" where
  "IdGenerator_generate timestamp random counter0 =
     (let counter = counter0 + 1
      in (decimal timestamp @ ''-'' @ decimal random @ ''-'' @ decimal counter, counter))"

section \<open>The query steps shared by the list operations\<close>

text \<open>
  \<^verbatim>\<open>Object.entries(filter).every(([key, value]) => rec[key] === value)\<close>
\<close>

definition matches :: "obj \<Rightarrow> obj \<Rightarrow> bool" where
  "matches flt r = list_all (\<lambda>(key, v). strict_eq (getProp r key) v) flt"

text \<open>The comparator handed to \<^verbatim>\<open>sort\<close>: the first key that tells the records apart decides.\<close>

fun compareBy :: "(string \<times> sortOrder) list \<Rightarrow> obj \<Rightarrow> obj \<Rightarrow> int" where
  "compareBy [] a b = 0"
| "compareBy ((key, ord) # rest) a b =
     (let aValue = getProp a key; bValue = getProp b key in
      if aValue \<noteq> JUndefined \<and> bValue \<noteq> JUndefined then
        (if js_lt aValue bValue then (if ord = Asc then -1 else 1)
         else if js_lt bValue aValue then (if ord = Asc then 1 else -1)
         else compareBy rest a b)
      else compareBy rest a b)"

text \<open>\<^verbatim>\<open>Array.prototype.sort\<close> is stable: an insertion sort with the comparator.\<close>

fun insertBy :: "('a \<Rightarrow> 'a \<Rightarrow> int) \<Rightarrow> 'a \<Rightarrow> 'a list \<Rightarrow> 'a list" where
  "insertBy cmp x [] = [x]"
| "insertBy cmp x (y # ys) = (if cmp x y \<le> 0 then x # y # ys else y # insertBy cmp x ys)"

definition sortBy :: "('a \<Rightarrow> 'a \<Rightarrow> int) \<Rightarrow> 'a list \<Rightarrow> 'a list" where
  "sortBy cmp xs = foldr (insertBy cmp) xs []"

text \<open>
  The three steps every list operation runs on the array of its records, in the
  source's order: filter when a filter is given, sort when a sort is given, and
  paginate when \<^verbatim>\<open>options?.limit\<close> is truthy, that is a number other than 0.
\<close>

definition applyFilter :: "QueryOptions option \<Rightarrow> obj list \<Rightarrow> obj list" where
  "applyFilter options xs =
     (case options of
        None \<Rightarrow> xs
      | Some opts \<Rightarrow> (case qo_filter opts of None \<Rightarrow> xs | Some flt \<Rightarrow> filter (matches flt) xs))"

definition applySort :: "QueryOptions option \<Rightarrow> obj list \<Rightarrow> obj list" where
  "applySort options xs =
     (case options of
        None \<Rightarrow> xs
      | Some opts \<Rightarrow> (case qo_sort opts of None \<Rightarrow> xs | Some srt \<Rightarrow> sortBy (compareBy srt) xs))"

definition applyPagination :: "QueryOptions option \<Rightarrow> obj list \<Rightarrow> obj list" where
  "applyPagination options xs =
     (case options of
        None \<Rightarrow> xs
      | Some opts \<Rightarrow>
          (case qo_limit opts of
             None \<Rightarrow> xs
           | Some lim \<Rightarrow>
               if lim \<noteq> 0 then
                 (let offset = (case qo_offset opts of None \<Rightarrow> 0 | Some off \<Rightarrow> off)
                  in slice xs offset (offset + lim))
               else xs))"

section \<open>MemoryAdapter\<close>

text \<open>
  A JavaScript \<^verbatim>\<open>Map\<close> is a list of entries in insertion order: \<^verbatim>\<open>get\<close> is \<^const>\<open>map_of\<close>,
  \<^verbatim>\<open>set\<close> is \<^const>\<open>AList.update\<close> (an existing key keeps its place, a new one goes last),
  \<^verbatim>\<open>delete\<close> is \<^const>\<open>AList.delete\<close> and \<^verbatim>\<open>values()\<close> is \<open>map snd\<close>.
  An operation that throws leaves the adapter as it was, so its result is either the
  error or the returned value with the adapter after the call.
\<close>

record Collections =
  tx_users :: "(string \<times> obj) list"
  tx_roles :: "(string \<times> obj) list"
  tx_userRoles :: "(string \<times> UserRole) list"

record MemoryAdapter =
  users :: "(string \<times> obj) list"
  roles :: "(string \<times> obj) list"
  userRoles :: "(string \<times> UserRole) list"
  inTransaction :: bool
  transactionData :: "Collections option"

definition mem_beginTransaction :: "MemoryAdapter \<Rightarrow> error + MemoryAdapter" where
  "mem_beginTransaction s =
     (if inTransaction s then Inl TransactionAlreadyInProgress
      else Inr (s\<lparr>inTransaction := True,
                   transactionData := Some \<lparr>tx_users = users s, tx_roles = roles s,
                                             tx_userRoles = userRoles s\<rparr>\<rparr>))"

definition mem_commit :: "MemoryAdapter \<Rightarrow> error + MemoryAdapter" where
  "mem_commit s =
     (case transactionData s of
        None \<Rightarrow> Inl NoTransactionInProgress
      | Some td \<Rightarrow>
          if \<not> inTransaction s then Inl NoTransactionInProgress
          else Inr (s\<lparr>users := tx_users td, roles := tx_roles td, userRoles := tx_userRoles td,
                       inTransaction := False, transactionData := None\<rparr>))"

definition mem_rollback :: "MemoryAdapter \<Rightarrow> error + MemoryAdapter" where
  "mem_rollback s =
     (case transactionData s of
        None \<Rightarrow> Inl NoTransactionInProgress
      | Some td \<Rightarrow>
          if \<not> inTransaction s then Inl NoTransactionInProgress
          else Inr (s\<lparr>inTransaction := False, transactionData := None\<rparr>))"

text \<open>
  \<^verbatim>\<open>getUserMap()\<close> and its two siblings hand out the map the operation works on: the
  transaction's copy while one is open, the live map otherwise.  The operations change
  that map in place; \<open>putUserMap\<close> writes the changed map back where it came from.
\<close>

definition getUserMap :: "MemoryAdapter \<Rightarrow> (string \<times> obj) list" where
  "getUserMap s =
     (case transactionData s of
        Some td \<Rightarrow> if inTransaction s then tx_users td else users s
      | None \<Rightarrow> users s)"

definition getRoleMap :: "MemoryAdapter \<Rightarrow> (string \<times> obj) list" where
  "getRoleMap s =
     (case transactionData s of
        Some td \<Rightarrow> if inTransaction s then tx_roles td else roles s
      | None \<Rightarrow> roles s)"

definition getUserRoleMap :: "MemoryAdapter \<Rightarrow> (string \<times> UserRole) list" where
  "getUserRoleMap s =
     (case transactionData s of
        Some td \<Rightarrow> if inTransaction s then tx_userRoles td else userRoles s
      | None \<Rightarrow> userRoles s)"

definition putUserMap :: "(string \<times> obj) list \<Rightarrow> MemoryAdapter \<Rightarrow> MemoryAdapter" where
  "putUserMap m s =
     (case transactionData s of
        Some td \<Rightarrow>
          if inTransaction s then s\<lparr>transactionData := Some (td\<lparr>tx_users := m\<rparr>)\<rparr>
          else s\<lparr>users := m\<rparr>
      | None \<Rightarrow> s\<lparr>users := m\<rparr>)"

definition putRoleMap :: "(string \<times> obj) list \<Rightarrow> MemoryAdapter \<Rightarrow> MemoryAdapter" where
  "putRoleMap m s =
     (case transactionData s of
        Some td \<Rightarrow>
          if inTransaction s then s\<lparr>transactionData := Some (td\<lparr>tx_roles := m\<rparr>)\<rparr>
          else s\<lparr>roles := m\<rparr>
      | None \<Rightarrow> s\<lparr>roles := m\<rparr>)"

definition putUserRoleMap :: "(string \<times> UserRole) list \<Rightarrow> MemoryAdapter \<Rightarrow> MemoryAdapter" where
  "putUserRoleMap m s =
     (case transactionData s of
        Some td \<Rightarrow>
          if inTransaction s then s\<lparr>transactionData := Some (td\<lparr>tx_userRoles := m\<rparr>)\<rparr>
          else s\<lparr>userRoles := m\<rparr>
      | None \<Rightarrow> s\<lparr>userRoles := m\<rparr>)"

text \<open>\<^verbatim>\<open>{ ...data, id, createdAt: now, updatedAt: now }\<close>\<close>

definition newEntity :: "obj \<Rightarrow> string \<Rightarrow> nat \<Rightarrow> obj" where
  "newEntity entityData ident now =
     AList.update ''updatedAt'' (JDate now)
       (AList.update ''createdAt'' (JDate now)
         (AList.update ''id'' (JStr ident) entityData))"

definition mem_createUser ::
  "Validator \<Rightarrow> obj \<Rightarrow> string \<Rightarrow> nat \<Rightarrow> MemoryAdapter \<Rightarrow> error + (obj \<times> MemoryAdapter)" where
  "mem_createUser V userData ident now s =
     (let validationErrors = validateUser V userData in
      if validationErrors \<noteq> [] then Inl (ValidationFailed (map message validationErrors))
      else
        (let user = newEntity userData ident now
         in Inr (user, putUserMap (AList.update ident user (getUserMap s)) s)))"

definition mem_getUserById :: "Validator \<Rightarrow> string \<Rightarrow> MemoryAdapter \<Rightarrow> error + obj option" where
  "mem_getUserById V ident s =
     (case validateId V ident of
        Some validationError \<Rightarrow> Inl (ValidationFailed [message validationError])
      | None \<Rightarrow> Inr (map_of (getUserMap s) ident))"

definition mem_getUsers ::
  "Validator \<Rightarrow> QueryOptions option \<Rightarrow> MemoryAdapter \<Rightarrow> error + QueryResult" where
  "mem_getUsers V options s =
     (case validateQueryOptions V options of
        Some validationError \<Rightarrow> Inl (ValidationFailed [message validationError])
      | None \<Rightarrow>
          (let users0 = map snd (getUserMap s);
               total0 = length users0;
               users1 = applyFilter options users0;
               users2 = applySort options users1;
               users3 = applyPagination options users2
           in Inr \<lparr>items = users3, total = total0\<rparr>))"

definition mem_updateUser ::
  "Validator \<Rightarrow> string \<Rightarrow> obj \<Rightarrow> nat \<Rightarrow> MemoryAdapter \<Rightarrow> error + (obj option \<times> MemoryAdapter)" where
  "mem_updateUser V ident userData now s =
     (case validateId V ident of
        Some validationError \<Rightarrow> Inl (ValidationFailed [message validationError])
      | None \<Rightarrow>
          (let usersMap = getUserMap s in
           case map_of usersMap ident of
             None \<Rightarrow> Inr (None, s)
           | Some user \<Rightarrow>
               (let validationErrors = validateUser V (spread user userData) in
                if validationErrors \<noteq> [] then
                  Inl (ValidationFailed (map message validationErrors))
                else
                  (let updatedUser = AList.update ''updatedAt'' (JDate now) (spread user userData)
                   in Inr (Some updatedUser,
                           putUserMap (AList.update ident updatedUser usersMap) s)))))"

text \<open>
  The cascade of the two delete operations: every entry of the association map is
  visited, and the entry is deleted by its key when it names the deleted entity.
\<close>

definition deleteWhere ::
  "(UserRole \<Rightarrow> bool) \<Rightarrow> (string \<times> UserRole) list \<Rightarrow> (string \<times> UserRole) list" where
  "deleteWhere P m = fold (\<lambda>(key, userRole) acc. if P userRole then AList.delete key acc else acc) m m"

definition mem_deleteUser ::
  "Validator \<Rightarrow> string \<Rightarrow> MemoryAdapter \<Rightarrow> error + (bool \<times> MemoryAdapter)" where
  "mem_deleteUser V ident s =
     (case validateId V ident of
        Some validationError \<Rightarrow> Inl (ValidationFailed [message validationError])
      | None \<Rightarrow>
          (let usersMap = getUserMap s;
               userRolesMap = getUserRoleMap s;
               s1 = putUserRoleMap (deleteWhere (\<lambda>userRole. userId userRole = ident) userRolesMap) s
           in Inr (map_of usersMap ident \<noteq> None, putUserMap (AList.delete ident usersMap) s1)))"

definition mem_createRole ::
  "Validator \<Rightarrow> obj \<Rightarrow> string \<Rightarrow> nat \<Rightarrow> MemoryAdapter \<Rightarrow> error + (obj \<times> MemoryAdapter)" where
  "mem_createRole V roleData ident now s =
     (let validationErrors = validateRole V roleData in
      if validationErrors \<noteq> [] then Inl (ValidationFailed (map message validationErrors))
      else
        (let role = newEntity roleData ident now
         in Inr (role, putRoleMap (AList.update ident role (getRoleMap s)) s)))"

definition mem_getRoleById :: "Validator \<Rightarrow> string \<Rightarrow> MemoryAdapter \<Rightarrow> error + obj option" where
  "mem_getRoleById V ident s =
     (case validateId V ident of
        Some validationError \<Rightarrow> Inl (ValidationFailed [message validationError])
      | None \<Rightarrow> Inr (map_of (getRoleMap s) ident))"

definition mem_getRoles ::
  "Validator \<Rightarrow> QueryOptions option \<Rightarrow> MemoryAdapter \<Rightarrow> error + QueryResult" where
  "mem_getRoles V options s =
     (case validateQueryOptions V options of
        Some validationError \<Rightarrow> Inl (ValidationFailed [message validationError])
      | None \<Rightarrow>
          (let roles0 = map snd (getRoleMap s);
               total0 = length roles0;
               roles1 = applyFilter options roles0;
               roles2 = applySort options roles1;
               roles3 = applyPagination options roles2
           in Inr \<lparr>items = roles3, total = total0\<rparr>))"

definition mem_updateRole ::
  "Validator \<Rightarrow> string \<Rightarrow> obj \<Rightarrow> nat \<Rightarrow> MemoryAdapter \<Rightarrow> error + (obj option \<times> MemoryAdapter)" where
  "mem_updateRole V ident roleData now s =
     (case validateId V ident of
        Some validationError \<Rightarrow> Inl (ValidationFailed [message validationError])
      | None \<Rightarrow>
          (let rolesMap = getRoleMap s in
           case map_of rolesMap ident of
             None \<Rightarrow> Inr (None, s)
           | Some role \<Rightarrow>
               (let validationErrors = validateRole V (spread role roleData) in
                if validationErrors \<noteq> [] then
                  Inl (ValidationFailed (map message validationErrors))
                else
                  (let updatedRole = AList.update ''updatedAt'' (JDate now) (spread role roleData)
                   in Inr (Some updatedRole,
                           putRoleMap (AList.update ident updatedRole rolesMap) s)))))"

definition mem_deleteRole ::
  "Validator \<Rightarrow> string \<Rightarrow> MemoryAdapter \<Rightarrow> error + (bool \<times> MemoryAdapter)" where
  "mem_deleteRole V ident s =
     (case validateId V ident of
        Some validationError \<Rightarrow> Inl (ValidationFailed [message validationError])
      | None \<Rightarrow>
          (let rolesMap = getRoleMap s;
               userRolesMap = getUserRoleMap s;
               s1 = putUserRoleMap (deleteWhere (\<lambda>userRole. roleId userRole = ident) userRolesMap) s
           in Inr (map_of rolesMap ident \<noteq> None, putRoleMap (AList.delete ident rolesMap) s1)))"

text \<open>
  \<^verbatim>\<open>[userIdError, roleIdError].filter(Boolean).map(e => e.message)\<close>, and the key
  \<^verbatim>\<open>`${userId}:${roleId}`\<close> of an association.
\<close>

definition idErrors :: "ValidationError option \<Rightarrow> ValidationError option \<Rightarrow> string list" where
  "idErrors userIdError roleIdError = map message (List.map_filter (\<lambda>e. e) [userIdError, roleIdError])"

definition assocKey :: "string \<Rightarrow> string \<Rightarrow> string" where
  "assocKey uid rid = uid @ '':'' @ rid"

text \<open>
  \<^verbatim>\<open>assignRole\<close> looks for the user in the live map or in the transaction's map (and
  likewise for the role): ``Check in both main data and transaction data''.
\<close>

definition mem_assignRole ::
  "Validator \<Rightarrow> string \<Rightarrow> string \<Rightarrow> nat \<Rightarrow> MemoryAdapter \<Rightarrow> error + (UserRole \<times> MemoryAdapter)" where
  "mem_assignRole V uid rid now s =
     (let userIdError = validateId V uid;
          roleIdError = validateId V rid in
      if userIdError \<noteq> None \<or> roleIdError \<noteq> None then
        Inl (ValidationFailed (idErrors userIdError roleIdError))
      else
        (let userExists = (map_of (users s) uid \<noteq> None \<or>
                             (case transactionData s of
                                None \<Rightarrow> False
                              | Some td \<Rightarrow> map_of (tx_users td) uid \<noteq> None));
             roleExists = (map_of (roles s) rid \<noteq> None \<or>
                             (case transactionData s of
                                None \<Rightarrow> False
                              | Some td \<Rightarrow> map_of (tx_roles td) rid \<noteq> None))
         in
         if \<not> userExists \<or> \<not> roleExists then Inl UserOrRoleNotFound
         else
           (let key = assocKey uid rid;
                userRolesMap = getUserRoleMap s in
            case map_of userRolesMap key of
              Some existing \<Rightarrow> Inr (existing, s)
            | None \<Rightarrow>
                (let userRole = \<lparr>userId = uid, roleId = rid, createdAt = JDate now\<rparr>
                 in Inr (userRole, putUserRoleMap (AList.update key userRole userRolesMap) s)))))"

definition mem_removeRole ::
  "Validator \<Rightarrow> string \<Rightarrow> string \<Rightarrow> MemoryAdapter \<Rightarrow> error + (bool \<times> MemoryAdapter)" where
  "mem_removeRole V uid rid s =
     (let userIdError = validateId V uid;
          roleIdError = validateId V rid in
      if userIdError \<noteq> None \<or> roleIdError \<noteq> None then
        Inl (ValidationFailed (idErrors userIdError roleIdError))
      else
        (let key = assocKey uid rid;
             userRolesMap = getUserRoleMap s
         in Inr (map_of userRolesMap key \<noteq> None, putUserRoleMap (AList.delete key userRolesMap) s)))"





section \<open>FileSystemAdapter\<close>

text \<open>
  The adapter keeps its three arrays in \<^verbatim>\<open>this.data\<close> and writes them to one file.
  The file is modelled by the data whose serialization it holds (\<open>None\<close> before the first
  write); a failing write is outside the model, and so is \<^verbatim>\<open>initialize\<close>, which reads
  the file back and turns its timestamp strings into \<^verbatim>\<open>Date\<close> objects.  \<^verbatim>\<open>findIndex\<close>
  returns \<open>None\<close> for the source's \<open>-1\<close>.
\<close>

record FileSystemData =
  fs_users :: "obj list"
  fs_roles :: "obj list"
  fs_userRoles :: "UserRole list"

record FileSystemAdapter =
  data :: FileSystemData
  fs_inTransaction :: bool
  fs_transactionData :: "FileSystemData option"
  disk :: "FileSystemData option"

fun findIndex :: "('a \<Rightarrow> bool) \<Rightarrow> 'a list \<Rightarrow> nat option" where
  "findIndex P [] = None"
| "findIndex P (x # xs) =
     (if P x then Some 0 else (case findIndex P xs of None \<Rightarrow> None | Some i \<Rightarrow> Some (Suc i)))"

text \<open>\<^verbatim>\<open>xs.splice(i, 1)\<close>\<close>

definition splice1 :: "nat \<Rightarrow> 'a list \<Rightarrow> 'a list" where
  "splice1 i xs = take i xs @ drop (Suc i) xs"

text \<open>
  \<^verbatim>\<open>JSON.parse(JSON.stringify(v))\<close>: a \<^verbatim>\<open>Date\<close> is written as its ISO string and read
  back as that string, a property whose value is \<^verbatim>\<open>undefined\<close> is left out, and the
  rest is copied.  \<open>toISO\<close> is \<^verbatim>\<open>Date.prototype.toISOString\<close>, taken as it comes.
\<close>

fun jsonCopy :: "(nat \<Rightarrow> string) \<Rightarrow> jsval \<Rightarrow> jsval" where
  "jsonCopy toISO (JDate t) = JStr (toISO t)"
| "jsonCopy toISO (JObj ps) =
     JObj (map (\<lambda>(k, v). (k, jsonCopy toISO v)) (filter (\<lambda>(k, v). v \<noteq> JUndefined) ps))"
| "jsonCopy toISO v = v"

definition jsonCopyObj :: "(nat \<Rightarrow> string) \<Rightarrow> obj \<Rightarrow> obj" where
  "jsonCopyObj toISO ps = map (\<lambda>(k, v). (k, jsonCopy toISO v)) (filter (\<lambda>(k, v). v \<noteq> JUndefined) ps)"

definition jsonCopyData :: "(nat \<Rightarrow> string) \<Rightarrow> FileSystemData \<Rightarrow> FileSystemData" where
  "jsonCopyData toISO d =
     \<lparr>fs_users = map (jsonCopyObj toISO) (fs_users d),
      fs_roles = map (jsonCopyObj toISO) (fs_roles d),
      fs_userRoles = map (\<lambda>userRole. userRole\<lparr>createdAt := jsonCopy toISO (createdAt userRole)\<rparr>)
                       (fs_userRoles d)\<rparr>"

definition saveData :: "FileSystemAdapter \<Rightarrow> FileSystemAdapter" where
  "saveData s = s\<lparr>disk := Some (data s)\<rparr>"

text \<open>\<^verbatim>\<open>if (!this.inTransaction) { await this.saveData(); }\<close>\<close>

definition saveUnlessInTransaction :: "FileSystemAdapter \<Rightarrow> FileSystemAdapter" where
  "saveUnlessInTransaction s = (if \<not> fs_inTransaction s then saveData s else s)"

definition fs_shutdown :: "FileSystemAdapter \<Rightarrow> FileSystemAdapter" where
  "fs_shutdown s = saveData s"

definition fs_beginTransaction :: "(nat \<Rightarrow> string) \<Rightarrow> FileSystemAdapter \<Rightarrow> error + FileSystemAdapter" where
  "fs_beginTransaction toISO s =
     (if fs_inTransaction s then Inl TransactionAlreadyInProgress
      else Inr (s\<lparr>fs_inTransaction := True,
                   fs_transactionData := Some (jsonCopyData toISO (data s))\<rparr>))"

definition fs_commit :: "FileSystemAdapter \<Rightarrow> error + FileSystemAdapter" where
  "fs_commit s =
     (if \<not> fs_inTransaction s then Inl NoTransactionInProgress
      else Inr ((saveData s)\<lparr>fs_inTransaction := False, fs_transactionData := None\<rparr>))"

definition fs_rollback :: "FileSystemAdapter \<Rightarrow> error + FileSystemAdapter" where
  "fs_rollback s =
     (case fs_transactionData s of
        None \<Rightarrow> Inl NoTransactionInProgress
      | Some td \<Rightarrow>
          if \<not> fs_inTransaction s then Inl NoTransactionInProgress
          else Inr (s\<lparr>data := td, fs_inTransaction := False, fs_transactionData := None\<rparr>))"

text \<open>\<^verbatim>\<open>entity.id === id\<close> for a string \<open>id\<close>.\<close>

definition hasId :: "string \<Rightarrow> obj \<Rightarrow> bool" where
  "hasId ident entity = strict_eq (getProp entity ''id'') (JStr ident)"

definition fs_createUser ::
  "Validator \<Rightarrow> obj \<Rightarrow> string \<Rightarrow> nat \<Rightarrow> FileSystemAdapter \<Rightarrow> error + (obj \<times> FileSystemAdapter)" where
  "fs_createUser V userData ident now s =
     (let validationErrors = validateUser V userData in
      if validationErrors \<noteq> [] then Inl (ValidationFailed (map message validationErrors))
      else
        (let user = newEntity userData ident now;
             s1 = s\<lparr>data := (data s)\<lparr>fs_users := fs_users (data s) @ [user]\<rparr>\<rparr>
         in Inr (user, saveUnlessInTransaction s1)))"

definition fs_getUserById :: "Validator \<Rightarrow> string \<Rightarrow> FileSystemAdapter \<Rightarrow> error + obj option" where
  "fs_getUserById V ident s =
     (case validateId V ident of
        Some validationError \<Rightarrow> Inl (ValidationFailed [message validationError])
      | None \<Rightarrow> Inr (find (hasId ident) (fs_users (data s))))"

definition fs_getUsers ::
  "Validator \<Rightarrow> QueryOptions option \<Rightarrow> FileSystemAdapter \<Rightarrow> error + QueryResult" where
  "fs_getUsers V options s =
     (case validateQueryOptions V options of
        Some validationError \<Rightarrow> Inl (ValidationFailed [message validationError])
      | None \<Rightarrow>
          (let users0 = fs_users (data s);
               total0 = length users0;
               users1 = applyFilter options users0;
               users2 = applySort options users1;
               users3 = applyPagination options users2
           in Inr \<lparr>items = users3, total = total0\<rparr>))"

definition fs_updateUser ::
  "Validator \<Rightarrow> string \<Rightarrow> obj \<Rightarrow> nat \<Rightarrow> FileSystemAdapter
     \<Rightarrow> error + (obj option \<times> FileSystemAdapter)" where
  "fs_updateUser V ident userData now s =
     (case validateId V ident of
        Some validationError \<Rightarrow> Inl (ValidationFailed [message validationError])
      | None \<Rightarrow>
          (case findIndex (hasId ident) (fs_users (data s)) of
             None \<Rightarrow> Inr (None, s)
           | Some userIndex \<Rightarrow>
               (let updatedUser = AList.update ''updatedAt'' (JDate now)
                                    (spread (fs_users (data s) ! userIndex) userData);
                    validationErrors = validateUser V updatedUser in
                if validationErrors \<noteq> [] then
                  Inl (ValidationFailed (map message validationErrors))
                else
                  (let s1 = s\<lparr>data := (data s)\<lparr>fs_users := (fs_users (data s))[userIndex := updatedUser]\<rparr>\<rparr>
                   in Inr (Some updatedUser, saveUnlessInTransaction s1)))))"

definition fs_deleteUser ::
  "Validator \<Rightarrow> string \<Rightarrow> FileSystemAdapter \<Rightarrow> error + (bool \<times> FileSystemAdapter)" where
  "fs_deleteUser V ident s =
     (case validateId V ident of
        Some validationError \<Rightarrow> Inl (ValidationFailed [message validationError])
      | None \<Rightarrow>
          (case findIndex (hasId ident) (fs_users (data s)) of
             None \<Rightarrow> Inr (False, s)
           | Some userIndex \<Rightarrow>
               (let d1 = (data s)\<lparr>fs_userRoles :=
                            filter (\<lambda>userRole. userId userRole \<noteq> ident) (fs_userRoles (data s))\<rparr>;
                    d2 = d1\<lparr>fs_users := splice1 userIndex (fs_users d1)\<rparr>
                in Inr (True, saveUnlessInTransaction (s\<lparr>data := d2\<rparr>)))))"

definition fs_createRole ::
  "Validator \<Rightarrow> obj \<Rightarrow> string \<Rightarrow> nat \<Rightarrow> FileSystemAdapter \<Rightarrow> error + (obj \<times> FileSystemAdapter)" where
  "fs_createRole V roleData ident now s =
     (let validationErrors = validateRole V roleData in
      if validationErrors \<noteq> [] then Inl (ValidationFailed (map message validationErrors))
      else
        (let role = newEntity roleData ident now;
             s1 = s\<lparr>data := (data s)\<lparr>fs_roles := fs_roles (data s) @ [role]\<rparr>\<rparr>
         in Inr (role, saveUnlessInTransaction s1)))"

definition fs_getRoleById :: "Validator \<Rightarrow> string \<Rightarrow> FileSystemAdapter \<Rightarrow> error + obj option" where
  "fs_getRoleById V ident s =
     (case validateId V ident of
        Some validationError \<Rightarrow> Inl (ValidationFailed [message validationError])
      | None \<Rightarrow> Inr (find (hasId ident) (fs_roles (data s))))"

definition fs_getRoles ::
  "Validator \<Rightarrow> QueryOptions option \<Rightarrow> FileSystemAdapter \<Rightarrow> error + QueryResult" where
  "fs_getRoles V options s =
     (case validateQueryOptions V options of
        Some validationError \<Rightarrow> Inl (ValidationFailed [message validationError])
      | None \<Rightarrow>
          (let roles0 = fs_roles (data s);
               total0 = length roles0;
               roles1 = applyFilter options roles0;
               roles2 = applySort options roles1;
               roles3 = applyPagination options roles2
           in Inr \<lparr>items = roles3, total = total0\<rparr>))"

definition fs_updateRole ::
  "Validator \<Rightarrow> string \<Rightarrow> obj \<Rightarrow> nat \<Rightarrow> FileSystemAdapter
     \<Rightarrow> error + (obj option \<times> FileSystemAdapter)" where
  "fs_updateRole V ident roleData now s =
     (case validateId V ident of
        Some validationError \<Rightarrow> Inl (ValidationFailed [message validationError])
      | None \<Rightarrow>
          (case findIndex (hasId ident) (fs_roles (data s)) of
             None \<Rightarrow> Inr (None, s)
           | Some roleIndex \<Rightarrow>
               (let updatedRole = AList.update ''updatedAt'' (JDate now)
                                    (spread (fs_roles (data s) ! roleIndex) roleData);
                    validationErrors = validateRole V updatedRole in
                if validationErrors \<noteq> [] then
                  Inl (ValidationFailed (map message validationErrors))
                else
                  (let s1 = s\<lparr>data := (data s)\<lparr>fs_roles := (fs_roles (data s))[roleIndex := updatedRole]\<rparr>\<rparr>
                   in Inr (Some updatedRole, saveUnlessInTransaction s1)))))"

definition fs_deleteRole ::
  "Validator \<Rightarrow> string \<Rightarrow> FileSystemAdapter \<Rightarrow> error + (bool \<times> FileSystemAdapter)" where
  "fs_deleteRole V ident s =
     (case validateId V ident of
        Some validationError \<Rightarrow> Inl (ValidationFailed [message validationError])
      | None \<Rightarrow>
          (case findIndex (hasId ident) (fs_roles (data s)) of
             None \<Rightarrow> Inr (False, s)
           | Some roleIndex \<Rightarrow>
               (let d1 = (data s)\<lparr>fs_userRoles :=
                            filter (\<lambda>userRole. roleId userRole \<noteq> ident) (fs_userRoles (data s))\<rparr>;
                    d2 = d1\<lparr>fs_roles := splice1 roleIndex (fs_roles d1)\<rparr>
                in Inr (True, saveUnlessInTransaction (s\<lparr>data := d2\<rparr>)))))"

definition fs_assignRole ::
  "Validator \<Rightarrow> string \<Rightarrow> string \<Rightarrow> nat \<Rightarrow> FileSystemAdapter
     \<Rightarrow> error + (UserRole \<times> FileSystemAdapter)" where
  "fs_assignRole V uid rid now s =
     (let userIdError = validateId V uid;
          roleIdError = validateId V rid in
      if userIdError \<noteq> None \<or> roleIdError \<noteq> None then
        Inl (ValidationFailed (idErrors userIdError roleIdError))
      else
        (let userExists = list_ex (hasId uid) (fs_users (data s));
             roleExists = list_ex (hasId rid) (fs_roles (data s))
         in
         if \<not> userExists \<or> \<not> roleExists then Inl UserOrRoleNotFound
         else
           (case find (\<lambda>userRole. userId userRole = uid \<and> roleId userRole = rid)
                   (fs_userRoles (data s)) of
              Some existingUserRole \<Rightarrow> Inr (existingUserRole, s)
            | None \<Rightarrow>
                (let userRole = \<lparr>userId = uid, roleId = rid, createdAt = JDate now\<rparr>;
                     s1 = s\<lparr>data := (data s)\<lparr>fs_userRoles := fs_userRoles (data s) @ [userRole]\<rparr>\<rparr>
                 in Inr (userRole, saveUnlessInTransaction s1)))))"

definition fs_removeRole ::
  "Validator \<Rightarrow> string \<Rightarrow> string \<Rightarrow> FileSystemAdapter \<Rightarrow> error + (bool \<times> FileSystemAdapter)" where
  "fs_removeRole V uid rid s =
     (let userIdError = validateId V uid;
          roleIdError = validateId V rid in
      if userIdError \<noteq> None \<or> roleIdError \<noteq> None then
        Inl (ValidationFailed (idErrors userIdError roleIdError))
      else
        (let initialLength = length (fs_userRoles (data s));
             s1 = s\<lparr>data := (data s)\<lparr>fs_userRoles :=
                     filter (\<lambda>userRole. \<not> (userId userRole = uid \<and> roleId userRole = rid))
                       (fs_userRoles (data s))\<rparr>\<rparr>;
             removed = (length (fs_userRoles (data s1)) < initialLength)
         in Inr (removed, if removed \<and> \<not> fs_inTransaction s1 then saveData s1 else s1)))"




section \<open>HookManager and the managers\<close>

text \<open>
  An interceptor has the type \<^verbatim>\<open>(data: HookEvent) => Promise<HookEvent | undefined>\<close>.
  It is called with the running context object itself, which it may change in place
  before it fails or returns a context fragment (\<open>None\<close> for \<^verbatim>\<open>undefined\<close>).  A
  callback therefore maps the context it is called with to the context as it leaves it,
  and the way it ends.
\<close>

type_synonym HookEvent = obj

datatype hookOutcome = Throws | Returns "HookEvent option"

record Hook =
  name :: string
  callback :: "HookEvent \<Rightarrow> HookEvent \<times> hookOutcome"
  priority :: int

record HookManager =
  hooks :: "(string \<times> Hook list) list"

text \<open>
  \<^verbatim>\<open>registerHook\<close>: the hook is pushed on the event's list, which is then sorted by
  descending priority.
\<close>

definition registerHook ::
  "string \<Rightarrow> (HookEvent \<Rightarrow> HookEvent \<times> hookOutcome) \<Rightarrow> int \<Rightarrow> HookManager \<Rightarrow> HookManager" where
  "registerHook event cb prio hm =
     (let hooks1 = (if map_of (hooks hm) event = None then AList.update event [] (hooks hm)
                    else hooks hm);
          hook = \<lparr>name = event, callback = cb, priority = prio\<rparr>;
          pushed = (case map_of hooks1 event of None \<Rightarrow> [] | Some hs \<Rightarrow> hs) @ [hook]
      in hm\<lparr>hooks := AList.update event (sortBy (\<lambda>a b. priority b - priority a) pushed) hooks1\<rparr>)"

text \<open>
  The loop of \<^verbatim>\<open>executeHooks\<close>.  The callback works on the object \<^verbatim>\<open>result\<close> refers to,
  so after the call \<^verbatim>\<open>result\<close> is the context as the callback left it; the \<^verbatim>\<open>catch\<close>
  block is empty and restores nothing.
\<close>

fun runHooks :: "Hook list \<Rightarrow> HookEvent \<Rightarrow> HookEvent" where
  "runHooks [] result = result"
| "runHooks (hook # rest) result =
     (case callback hook result of
        (result', Throws) \<Rightarrow> runHooks rest result'
      | (result', Returns None) \<Rightarrow> runHooks rest result'
      | (result', Returns (Some hookResult)) \<Rightarrow> runHooks rest (spread result' hookResult))"

definition executeHooks :: "HookManager \<Rightarrow> string \<Rightarrow> HookEvent \<Rightarrow> HookEvent" where
  "executeHooks hm event eventData =
     (let hs = (case map_of (hooks hm) event of None \<Rightarrow> [] | Some hs \<Rightarrow> hs)
      in runHooks hs eventData)"

text \<open>
  The managers call the adapter through the \<^verbatim>\<open>StorageAdapter\<close> interface, with whatever
  values the pre-hooks left in the context; they are stated for any implementation of
  the interface, over any adapter state \<open>'s\<close> and any error \<open>'e\<close> it throws.  A manager
  returns the variable that holds the adapter's result, not a property of the context
  the post-hooks return.  Values carry no object identity here: the result is the
  record as the adapter returned it, which is what the caller sees as long as no
  post-hook writes into that record itself.
\<close>

record ('s, 'e) StorageAdapter =
  createUser :: "jsval \<Rightarrow> 's \<Rightarrow> 'e + (jsval \<times> 's)"
  getUserById :: "jsval \<Rightarrow> 's \<Rightarrow> 'e + (jsval \<times> 's)"
  updateUser :: "jsval \<Rightarrow> jsval \<Rightarrow> 's \<Rightarrow> 'e + (jsval \<times> 's)"
  createRole :: "jsval \<Rightarrow> 's \<Rightarrow> 'e + (jsval \<times> 's)"
  assignRole :: "jsval \<Rightarrow> jsval \<Rightarrow> 's \<Rightarrow> 'e + (jsval \<times> 's)"

definition UserManager_createUser ::
  "('s, 'e) StorageAdapter \<Rightarrow> HookManager \<Rightarrow> jsval \<Rightarrow> 's \<Rightarrow> 'e + (jsval \<times> 's)" where
  "UserManager_createUser adapter hm userData s =
     (let preData = executeHooks hm ''user.preCreate'' [(''userData'', userData)] in
      case createUser adapter (getProp preData ''userData'') s of
        Inl e \<Rightarrow> Inl e
      | Inr (user, s1) \<Rightarrow>
          (let postData = executeHooks hm ''user.postCreate'' [(''user'', user)]
           in Inr (user, s1)))"






section \<open>The regular shape of the stores\<close>

text \<open>
  \<^verbatim>\<open>createUser\<close> and \<^verbatim>\<open>createRole\<close> store a record under the id drawn for it, so with
  ids that are drawn fresh the stores they build have a regular shape: a map entry's key
  is the id its record carries, and the records of an array have pairwise different
  ids.  The shape is not an invariant of the adapters: an update whose payload carries
  an \<^verbatim>\<open>id\<close> overwrites the id of the stored record and leaves its key or position as it
  was.
\<close>

definition keyedById :: "(string \<times> obj) list \<Rightarrow> bool" where
  "keyedById m = list_all (\<lambda>(k, entity). getProp entity ''id'' = JStr k) m"

definition distinctIds :: "obj list \<Rightarrow> bool" where
  "distinctIds xs = distinct (map (\<lambda>entity. getProp entity ''id'') xs)"

text \<open>
  An association is stored under the key \<^verbatim>\<open>`${userId}:${roleId}`\<close> of its pair.  An
  identifier that \<^verbatim>\<open>IdGenerator.generate()\<close> returns holds digits and hyphens only, hence
  no colon, so that a key names one pair only; at most one association per pair means
  that the pairs of the stored associations are pairwise different.
\<close>

definition noColon :: "string \<Rightarrow> bool" where
  "noColon s = (CHR '':'' \<notin> set s)"



section \<open>Mutations inside a transaction\<close>

text \<open>
  The mutations a caller can issue inside a transaction, with the identifier and the
  time each one draws.  A mutation that throws leaves the adapter as it was and the
  caller goes on (or rolls back).
\<close>

datatype mutation =
    CreateUser obj string nat
  | UpdateUser string obj nat
  | DeleteUser string
  | CreateRole obj string nat
  | UpdateRole string obj nat
  | DeleteRole string
  | AssignRole string string nat
  | RemoveRole string string

definition stateAfter :: "'s \<Rightarrow> error + ('a \<times> 's) \<Rightarrow> 's" where
  "stateAfter s result = (case result of Inl e \<Rightarrow> s | Inr (value, s') \<Rightarrow> s')"

fun mem_mutate :: "Validator \<Rightarrow> mutation \<Rightarrow> MemoryAdapter \<Rightarrow> MemoryAdapter" where
  "mem_mutate V (CreateUser userData ident now) s = stateAfter s (mem_createUser V userData ident now s)"
| "mem_mutate V (UpdateUser ident userData now) s = stateAfter s (mem_updateUser V ident userData now s)"
| "mem_mutate V (DeleteUser ident) s = stateAfter s (mem_deleteUser V ident s)"
| "mem_mutate V (CreateRole roleData ident now) s = stateAfter s (mem_createRole V roleData ident now s)"
| "mem_mutate V (UpdateRole ident roleData now) s = stateAfter s (mem_updateRole V ident roleData now s)"
| "mem_mutate V (DeleteRole ident) s = stateAfter s (mem_deleteRole V ident s)"
| "mem_mutate V (AssignRole uid rid now) s = stateAfter s (mem_assignRole V uid rid now s)"
| "mem_mutate V (RemoveRole uid rid) s = stateAfter s (mem_removeRole V uid rid s)"

fun fs_mutate :: "Validator \<Rightarrow> mutation \<Rightarrow> FileSystemAdapter \<Rightarrow> FileSystemAdapter" where
  "fs_mutate V (CreateUser userData ident now) s = stateAfter s (fs_createUser V userData ident now s)"
| "fs_mutate V (UpdateUser ident userData now) s = stateAfter s (fs_updateUser V ident userData now s)"
| "fs_mutate V (DeleteUser ident) s = stateAfter s (fs_deleteUser V ident s)"
| "fs_mutate V (CreateRole roleData ident now) s = stateAfter s (fs_createRole V roleData ident now s)"
| "fs_mutate V (UpdateRole ident roleData now) s = stateAfter s (fs_updateRole V ident roleData now s)"
| "fs_mutate V (DeleteRole ident) s = stateAfter s (fs_deleteRole V ident s)"
| "fs_mutate V (AssignRole uid rid now) s = stateAfter s (fs_assignRole V uid rid now s)"
| "fs_mutate V (RemoveRole uid rid) s = stateAfter s (fs_removeRole V uid rid s)"

text \<open>
  An adapter with an open transaction that was begun in the state \<open>s0\<close>: the live
  collections (memory) and the snapshot and the file (file system) are those of \<open>s0\<close>.
\<close>

definition mem_openOver :: "MemoryAdapter \<Rightarrow> MemoryAdapter \<Rightarrow> bool" where
  "mem_openOver s0 s =
     (inTransaction s \<and> transactionData s \<noteq> None \<and> users s = users s0 \<and> roles s = roles s0
      \<and> userRoles s = userRoles s0)"

definition fs_openOver :: "FileSystemData \<Rightarrow> FileSystemAdapter \<Rightarrow> FileSystemAdapter \<Rightarrow> bool" where
  "fs_openOver snapshot s0 s =
     (fs_inTransaction s \<and> fs_transactionData s = Some snapshot \<and> disk s = disk s0)"

section \<open>Example states\<close>

text \<open>Two users and a role, as \<^verbatim>\<open>createUser\<close> and \<^verbatim>\<open>createRole\<close> build them.\<close>

definition exAlice :: obj where
  "exAlice = newEntity [(''username'', JStr ''alice''), (''email'', JStr ''alice@example.com'')]
               ''u1'' 1000"

definition exBob :: obj where
  "exBob = newEntity [(''username'', JStr ''bob''), (''email'', JStr ''bob@example.com'')]
             ''u2'' 2000"

definition exAdmin :: obj where
  "exAdmin = newEntity [(''name'', JStr ''Admin'')] ''r1'' 3000"

definition emptyMemory :: MemoryAdapter where
  "emptyMemory = \<lparr>users = [], roles = [], userRoles = [], inTransaction = False,
                   transactionData = None\<rparr>"

definition exMemory :: MemoryAdapter where
  "exMemory = \<lparr>users = [(''u1'', exAlice), (''u2'', exBob)], roles = [(''r1'', exAdmin)],
                userRoles = [], inTransaction = False, transactionData = None\<rparr>"

definition exData :: FileSystemData where
  "exData = \<lparr>fs_users = [exAlice, exBob], fs_roles = [exAdmin], fs_userRoles = []\<rparr>"

definition exFileSystem :: FileSystemAdapter where
  "exFileSystem = \<lparr>data = exData, fs_inTransaction = False, fs_transactionData = None,
                    disk = Some exData\<rparr>"

text \<open>\<^verbatim>\<open>{ filter: { username: 'alice' } }\<close>, \<^verbatim>\<open>{ offset: 1 }\<close> and \<^verbatim>\<open>{ limit: 0 }\<close>.\<close>

definition exFilterAlice :: QueryOptions where
  "exFilterAlice = \<lparr>qo_filter = Some [(''username'', JStr ''alice'')], qo_sort = None,
                     qo_limit = None, qo_offset = None, qo_include = None\<rparr>"

definition exOffsetOnly :: QueryOptions where
  "exOffsetOnly = \<lparr>qo_filter = None, qo_sort = None, qo_limit = None, qo_offset = Some 1,
                    qo_include = None\<rparr>"

definition exLimitZero :: QueryOptions where
  "exLimitZero = \<lparr>qo_filter = None, qo_sort = None, qo_limit = Some 0, qo_offset = None,
                   qo_include = None\<rparr>"

text \<open>
  An empty hook registry, the input of a \<^verbatim>\<open>createUser\<close> call, and five interceptors:
  one that fails at once; one that sets \<^verbatim>\<open>data.userData\<close> to another user's data and then
  fails; two that leave the context alone and return an entry for it; and a post-hook
  that returns a replacement for the created user.  Then a custom adapter that stores
  nothing and returns what it is given.
\<close>

definition noHooks :: HookManager where
  "noHooks = \<lparr>hooks = []\<rparr>"

definition exThrowing :: "HookEvent \<Rightarrow> HookEvent \<times> hookOutcome" where
  "exThrowing ctx = (ctx, Throws)"

definition exInput :: obj where
  "exInput = [(''username'', JStr ''alice''), (''email'', JStr ''alice@example.com'')]"

definition exMallory :: obj where
  "exMallory = [(''username'', JStr ''mallory''), (''email'', JStr ''mallory@example.com'')]"

definition exOverwriteThenThrow :: "HookEvent \<Rightarrow> HookEvent \<times> hookOutcome" where
  "exOverwriteThenThrow ctx = (AList.update ''userData'' (JObj exMallory) ctx, Throws)"

definition exAddSource :: "HookEvent \<Rightarrow> HookEvent \<times> hookOutcome" where
  "exAddSource ctx = (ctx, Returns (Some [(''source'', JStr ''import'')]))"

definition exAddAudit :: "HookEvent \<Rightarrow> HookEvent \<times> hookOutcome" where
  "exAddAudit ctx = (ctx, Returns (Some [(''audited'', JBool True)]))"


definition exAdapter :: "(unit, error) StorageAdapter" where
  "exAdapter = \<lparr>createUser = (\<lambda>userData s. Inr (userData, s)),
                 getUserById = (\<lambda>ident s. Inr (JNull, s)),
                 updateUser = (\<lambda>ident userData s. Inr (userData, s)),
                 createRole = (\<lambda>roleData s. Inr (roleData, s)),
                 assignRole = (\<lambda>uid rid s. Inr (JObj [(''userId'', uid), (''roleId'', rid)], s))\<rparr>"



text \<open>The records of two updates of user \<open>u1\<close>: one that changes the id, one that does not.\<close>

definition exRenamed :: obj where
  "exRenamed = AList.update ''updatedAt'' (JDate 9000) (spread exAlice [(''id'', JStr ''u9'')])"

definition exNewEmail :: obj where
  "exNewEmail = [(''email'', JStr ''new@example.com'')]"

definition exAliceMoved :: obj where
  "exAliceMoved = AList.update ''updatedAt'' (JDate 9000) (spread exAlice exNewEmail)"




text \<open>
  A file-system adapter outside a transaction whose file holds its data, as every
  mutation leaves it.
\<close>

definition exSaved :: "FileSystemData \<Rightarrow> FileSystemAdapter" where
  "exSaved d = \<lparr>data = d, fs_inTransaction = False, fs_transactionData = None, disk = Some d\<rparr>"




definition exAdminAsOther :: obj where
  "exAdminAsOther = AList.update ''updatedAt'' (JDate 9000) (spread exAdmin [(''id'', JStr ''r9'')])"

text \<open>The user \<open>u1\<close> as \<^verbatim>\<open>JSON.parse(JSON.stringify(...))\<close> returns it.\<close>

definition exAliceJson :: "(nat \<Rightarrow> string) \<Rightarrow> obj" where
  "exAliceJson toISO =
     [(''username'', JStr ''alice''), (''email'', JStr ''alice@example.com''), (''id'', JStr ''u1''),
      (''createdAt'', JStr (toISO 1000)), (''updatedAt'', JStr (toISO 1000))]"

section \<open>Basic facts\<close>

text \<open>The validator on identifiers and query options, and the steps that evaluate it.\<close>

lemma staticValidator_simps:
  "validateId staticValidator ident
     = (if ident = [] then Some \<lparr>field = ''id'', message = ''ID is required''\<rparr> else None)"
  "validateUser staticValidator user = Validator_validateUser user"
  "validateRole staticValidator role = Validator_validateRole role"
  "validateQueryOptions staticValidator options = None"
  by (simp_all add: staticValidator_def Validator_validateId_def Validator_validateQueryOptions_def
      split: option.splits)

lemmas validate_eval = Validator_validateUser_def Validator_validateRole_def emailPattern_def
  notSpaceOrAt_def isSpace_def

text \<open>
  The email pattern, as the strings it accepts: a local part, an \<^verbatim>\<open>@\<close>, and a domain
  with a dot inside, all three parts non-empty and free of white space and \<^verbatim>\<open>@\<close>.
\<close>

lemma emailPattern_iff:
  "emailPattern s \<longleftrightarrow>
     (\<exists>a b c. s = a @ ''@'' @ b @ ''.'' @ c \<and> a \<noteq> [] \<and> b \<noteq> [] \<and> c \<noteq> []
        \<and> list_all notSpaceOrAt a \<and> list_all notSpaceOrAt b \<and> list_all notSpaceOrAt c)"
proof
  assume e: "emailPattern s"
  define a where "a = takeWhile (\<lambda>c. c \<noteq> CHR ''@'') s"
  define r where "r = dropWhile (\<lambda>c. c \<noteq> CHR ''@'') s"
  define d where "d = tl r"
  from e have r: "r \<noteq> []" and a: "a \<noteq> []" "list_all notSpaceOrAt a" and dd: "list_all notSpaceOrAt d"
    and dot: "CHR ''.'' \<in> set (tl (butlast d))"
    by (simp_all add: emailPattern_def Let_def a_def r_def d_def)
  have hd: "hd r = CHR ''@''" using r unfolding r_def by (metis (mono_tags, lifting) hd_dropWhile)
  have s: "s = a @ ''@'' @ d"
    using r hd unfolding a_def d_def r_def
    by (metis append_Cons append_Nil list.collapse takeWhile_dropWhile_id)
  from dot obtain m1 m2 where m: "tl (butlast d) = m1 @ CHR ''.'' # m2" by (meson split_list)
  then have dne: "d \<noteq> []" "butlast d \<noteq> []" by auto
  have b1: "butlast d = hd (butlast d) # tl (butlast d)" using dne by simp
  have b2: "hd (butlast d) = hd d" using dne by (cases d) (auto split: if_splits)
  have b3: "d = butlast d @ [last d]" using dne by simp
  have d2: "d = (hd d # m1) @ ''.'' @ (m2 @ [last d])"
    by (subst b3, subst b1, simp add: b2 m)
  have "list_all notSpaceOrAt (hd d # m1)" "list_all notSpaceOrAt (m2 @ [last d])"
    using dd d2 by (metis list_all_append)+
  with s d2 a show "\<exists>a b c. s = a @ ''@'' @ b @ ''.'' @ c \<and> a \<noteq> [] \<and> b \<noteq> [] \<and> c \<noteq> []
        \<and> list_all notSpaceOrAt a \<and> list_all notSpaceOrAt b \<and> list_all notSpaceOrAt c"
    by (intro exI [of _ a] exI [of _ "hd d # m1"] exI [of _ "m2 @ [last d]"]) auto
next
  assume "\<exists>a b c. s = a @ ''@'' @ b @ ''.'' @ c \<and> a \<noteq> [] \<and> b \<noteq> [] \<and> c \<noteq> []
        \<and> list_all notSpaceOrAt a \<and> list_all notSpaceOrAt b \<and> list_all notSpaceOrAt c"
  then obtain a b c where s: "s = a @ ''@'' @ b @ ''.'' @ c" and ne: "a \<noteq> []" "b \<noteq> []" "c \<noteq> []"
    and al: "list_all notSpaceOrAt a" "list_all notSpaceOrAt b" "list_all notSpaceOrAt c" by blast
  from al(1) have na: "\<forall>x\<in>set a. x \<noteq> CHR ''@''" by (auto simp: list_all_iff notSpaceOrAt_def)
  have tw: "takeWhile (\<lambda>c. c \<noteq> CHR ''@'') s = a"
    unfolding s using na by (simp add: takeWhile_append2 [of a])
  have dw: "dropWhile (\<lambda>c. c \<noteq> CHR ''@'') s = ''@'' @ b @ ''.'' @ c"
    unfolding s using na by (simp add: dropWhile_append2 [of a])
  obtain b0 bs where b: "b = b0 # bs" using ne(2) by (cases b) auto
  obtain cs c9 where c: "c = cs @ [c9]" using ne(3) by (cases c rule: rev_cases) auto
  have "tl (butlast (b @ ''.'' @ c)) = bs @ ''.'' @ cs"
    by (simp add: b c butlast_append)
  then show "emailPattern s"
    using tw dw ne al by (simp add: emailPattern_def Let_def notSpaceOrAt_def isSpace_def)
qed

text \<open>
  An identifier that \<^verbatim>\<open>IdGenerator.generate()\<close> returns holds no colon.
\<close>

lemma digitChar_noColon: "d < 10 \<Longrightarrow> digitChar d \<noteq> CHR '':''"
proof -
  assume "d < 10"
  then have "d = 0 \<or> d = 1 \<or> d = 2 \<or> d = 3 \<or> d = 4 \<or> d = 5 \<or> d = 6 \<or> d = 7 \<or> d = 8 \<or> d = 9"
    by arith
  then show ?thesis
    by (elim disjE) (simp_all add: digitChar_def)
qed

lemma decimal_noColon: "CHR '':'' \<notin> set (decimal n)"
proof (induction n rule: decimal.induct)
  case (1 n)
  show ?case
  proof (cases "n < 10")
    case True
    then show ?thesis using digitChar_noColon [of n] by (subst decimal.simps) simp
  next
    case False
    then show ?thesis using 1 digitChar_noColon [of "n mod 10"]
      by (subst decimal.simps) simp
  qed
qed

lemma generate_noColon: "noColon (fst (IdGenerator_generate timestamp random counter0))"
  by (simp add: IdGenerator_generate_def noColon_def decimal_noColon Let_def)

lemma generate_example:
  "IdGenerator_generate 1700000000000 42 0 = (''1700000000000-42-1'', 1)"
  by (simp add: IdGenerator_generate_def decimal.simps digitChar_def Let_def)

lemma length_insertBy: "length (insertBy cmp x ys) = Suc (length ys)"
  by (induction ys) auto

lemma length_sortBy: "length (sortBy cmp xs) = length xs"
  by (induction xs) (simp_all add: sortBy_def length_insertBy)

lemma length_applySort: "length (applySort options xs) = length xs"
  by (simp add: applySort_def length_sortBy split: option.splits)

lemma applyPagination_falsy_limit:
  "qo_limit opts = None \<or> qo_limit opts = Some 0 \<Longrightarrow> applyPagination (Some opts) xs = xs"
  by (auto simp: applyPagination_def)

lemma exAlice_eq:
  "exAlice = [(''username'', JStr ''alice''), (''email'', JStr ''alice@example.com''),
              (''id'', JStr ''u1''), (''createdAt'', JDate 1000), (''updatedAt'', JDate 1000)]"
  by (simp add: exAlice_def newEntity_def)

lemma exBob_eq:
  "exBob = [(''username'', JStr ''bob''), (''email'', JStr ''bob@example.com''),
            (''id'', JStr ''u2''), (''createdAt'', JDate 2000), (''updatedAt'', JDate 2000)]"
  by (simp add: exBob_def newEntity_def)

lemma exAdmin_eq:
  "exAdmin = [(''name'', JStr ''Admin''), (''id'', JStr ''r1''), (''createdAt'', JDate 3000),
              (''updatedAt'', JDate 3000)]"
  by (simp add: exAdmin_def newEntity_def)

text \<open>The example state is what three calls of the adapter build from the empty one.\<close>

lemma exMemory_reached:
  "mem_createUser staticValidator [(''username'', JStr ''alice''), (''email'', JStr ''alice@example.com'')]
     ''u1'' 1000 emptyMemory = Inr (exAlice, emptyMemory\<lparr>users := [(''u1'', exAlice)]\<rparr>)"
  "mem_createUser staticValidator [(''username'', JStr ''bob''), (''email'', JStr ''bob@example.com'')]
     ''u2'' 2000 (emptyMemory\<lparr>users := [(''u1'', exAlice)]\<rparr>)
   = Inr (exBob, emptyMemory\<lparr>users := [(''u1'', exAlice), (''u2'', exBob)]\<rparr>)"
  "mem_createRole staticValidator [(''name'', JStr ''Admin'')] ''r1'' 3000
     (emptyMemory\<lparr>users := [(''u1'', exAlice), (''u2'', exBob)]\<rparr>) = Inr (exAdmin, exMemory)"
  by (simp_all add: mem_createUser_def mem_createRole_def staticValidator_simps validate_eval
      getProp_def emptyMemory_def exMemory_def getUserMap_def putUserMap_def getRoleMap_def
      putRoleMap_def exAlice_def exBob_def exAdmin_def Let_def)

section \<open>The list operations: total, offset and limit\<close>

text \<open>
  C1 (as amended).  When the options pass validation, each of the four list operations
  returns, and its \<open>total\<close> is the number of records of the whole collection: it is
  taken before the filter runs, so it does not depend on the filter, the limit or the
  offset.
\<close>

theorem getUsers_total_is_collection_size:
  assumes "validateQueryOptions V options = None"
  shows "(\<exists>r. mem_getUsers V options m = Inr r \<and> total r = length (getUserMap m))
       \<and> (\<exists>r. mem_getRoles V options m = Inr r \<and> total r = length (getRoleMap m))
       \<and> (\<exists>r. fs_getUsers V options d = Inr r \<and> total r = length (fs_users (data d)))
       \<and> (\<exists>r. fs_getRoles V options d = Inr r \<and> total r = length (fs_roles (data d)))"
  using assms
  by (simp add: mem_getUsers_def mem_getRoles_def fs_getUsers_def fs_getRoles_def Let_def)

theorem getUsers_total_is_collection_size_witness:
  "validateQueryOptions staticValidator (Some exFilterAlice) = None
   \<and> (\<exists>r. mem_getUsers staticValidator (Some exFilterAlice) exMemory = Inr r
            \<and> total r = length (getUserMap exMemory))
   \<and> (\<exists>r. mem_getRoles staticValidator (Some exFilterAlice) exMemory = Inr r
            \<and> total r = length (getRoleMap exMemory))
   \<and> (\<exists>r. fs_getUsers staticValidator (Some exFilterAlice) exFileSystem = Inr r
            \<and> total r = length (fs_users (data exFileSystem)))
   \<and> (\<exists>r. fs_getRoles staticValidator (Some exFilterAlice) exFileSystem = Inr r
            \<and> total r = length (fs_roles (data exFileSystem)))"
proof -
  have h: "validateQueryOptions staticValidator (Some exFilterAlice) = None"
    by (simp add: staticValidator_simps)
  from getUsers_total_is_collection_size [OF h, of exMemory exFileSystem] h
  show ?thesis by simp
qed

text \<open>
  The claim as stated fails: of the two stored users one matches the filter
  \<^verbatim>\<open>{ username: 'alice' }\<close>, and the total returned is 2.
\<close>

theorem getUsers_total_counterexample:
  "mem_getUsers staticValidator (Some exFilterAlice) exMemory = Inr \<lparr>items = [exAlice], total = 2\<rparr>
   \<and> length (filter (matches [(''username'', JStr ''alice'')]) (map snd (getUserMap exMemory))) = 1"
  by (simp add: mem_getUsers_def staticValidator_simps exFilterAlice_def exMemory_def getUserMap_def
      applyFilter_def applySort_def applyPagination_def matches_def getProp_def exAlice_eq exBob_eq)

text \<open>
  C6 (as amended).  With no limit in the options the pagination step is skipped as a
  whole, the offset with it: the operation returns every record that passes the filter
  (sorted when a sort is given), all \<open>N\<close> of them.
\<close>

theorem getUsers_offset_without_limit_ignored:
  assumes "validateQueryOptions V (Some opts) = None" and "qo_limit opts = None"
  shows "(\<exists>r. mem_getUsers V (Some opts) m = Inr r
              \<and> items r = applySort (Some opts) (applyFilter (Some opts) (map snd (getUserMap m)))
              \<and> length (items r) = length (applyFilter (Some opts) (map snd (getUserMap m))))
       \<and> (\<exists>r. mem_getRoles V (Some opts) m = Inr r
              \<and> items r = applySort (Some opts) (applyFilter (Some opts) (map snd (getRoleMap m)))
              \<and> length (items r) = length (applyFilter (Some opts) (map snd (getRoleMap m))))
       \<and> (\<exists>r. fs_getUsers V (Some opts) d = Inr r
              \<and> items r = applySort (Some opts) (applyFilter (Some opts) (fs_users (data d)))
              \<and> length (items r) = length (applyFilter (Some opts) (fs_users (data d))))
       \<and> (\<exists>r. fs_getRoles V (Some opts) d = Inr r
              \<and> items r = applySort (Some opts) (applyFilter (Some opts) (fs_roles (data d)))
              \<and> length (items r) = length (applyFilter (Some opts) (fs_roles (data d))))"
  using assms
  by (simp add: mem_getUsers_def mem_getRoles_def fs_getUsers_def fs_getRoles_def Let_def
      applyPagination_falsy_limit length_applySort)

theorem getUsers_offset_without_limit_ignored_witness:
  "validateQueryOptions staticValidator (Some exOffsetOnly) = None \<and> qo_limit exOffsetOnly = None
   \<and> qo_offset exOffsetOnly = Some 1
   \<and> mem_getUsers staticValidator (Some exOffsetOnly) exMemory
       = Inr \<lparr>items = [exAlice, exBob], total = 2\<rparr>"
proof -
  have h1: "validateQueryOptions staticValidator (Some exOffsetOnly) = None"
    by (simp add: staticValidator_simps)
  have h2: "qo_limit exOffsetOnly = None" "qo_offset exOffsetOnly = Some 1"
    by (simp_all add: exOffsetOnly_def)
  have all: "applySort (Some exOffsetOnly) (applyFilter (Some exOffsetOnly) (map snd (getUserMap exMemory)))
             = [exAlice, exBob]"
    by (simp add: applySort_def applyFilter_def exOffsetOnly_def getUserMap_def exMemory_def)
  from getUsers_offset_without_limit_ignored [OF h1 h2(1), of exMemory exFileSystem]
  obtain r where "mem_getUsers staticValidator (Some exOffsetOnly) exMemory = Inr r"
    and "items r = applySort (Some exOffsetOnly) (applyFilter (Some exOffsetOnly) (map snd (getUserMap exMemory)))"
    by blast
  moreover have "total r = 2"
    using calculation(1) by (auto simp: mem_getUsers_def h1 Let_def getUserMap_def exMemory_def)
  ultimately have "mem_getUsers staticValidator (Some exOffsetOnly) exMemory
       = Inr \<lparr>items = [exAlice, exBob], total = 2\<rparr>"
    using all by simp
  with h1 h2 show ?thesis by simp
qed

text \<open>
  The claim as stated fails: with \<^verbatim>\<open>{ offset: 1 }\<close> and two stored users the operation
  returns both, not the one record from position 1 on.
\<close>

theorem getUsers_offset_without_limit_counterexample:
  "mem_getUsers staticValidator (Some exOffsetOnly) exMemory = Inr \<lparr>items = [exAlice, exBob], total = 2\<rparr>
   \<and> drop 1 (map snd (getUserMap exMemory)) = [exBob]
   \<and> [exAlice, exBob] \<noteq> [exBob]"
  by (simp add: mem_getUsers_def staticValidator_simps exOffsetOnly_def exMemory_def getUserMap_def
      applyFilter_def applySort_def applyPagination_def)

text \<open>
  C10.  A limit of exactly 0 is falsy, so the pagination step is skipped: the operation
  returns every record that passes the filter (sorted when a sort is given), not an
  empty page.
\<close>

theorem getUsers_limit_zero_returns_all:
  assumes "validateQueryOptions V (Some opts) = None" and "qo_limit opts = Some 0"
  shows "(\<exists>r. mem_getUsers V (Some opts) m = Inr r
              \<and> items r = applySort (Some opts) (applyFilter (Some opts) (map snd (getUserMap m)))
              \<and> length (items r) = length (applyFilter (Some opts) (map snd (getUserMap m))))
       \<and> (\<exists>r. mem_getRoles V (Some opts) m = Inr r
              \<and> items r = applySort (Some opts) (applyFilter (Some opts) (map snd (getRoleMap m)))
              \<and> length (items r) = length (applyFilter (Some opts) (map snd (getRoleMap m))))
       \<and> (\<exists>r. fs_getUsers V (Some opts) d = Inr r
              \<and> items r = applySort (Some opts) (applyFilter (Some opts) (fs_users (data d)))
              \<and> length (items r) = length (applyFilter (Some opts) (fs_users (data d))))
       \<and> (\<exists>r. fs_getRoles V (Some opts) d = Inr r
              \<and> items r = applySort (Some opts) (applyFilter (Some opts) (fs_roles (data d)))
              \<and> length (items r) = length (applyFilter (Some opts) (fs_roles (data d))))"
  using assms
  by (simp add: mem_getUsers_def mem_getRoles_def fs_getUsers_def fs_getRoles_def Let_def
      applyPagination_falsy_limit length_applySort)

theorem getUsers_limit_zero_returns_all_witness:
  "validateQueryOptions staticValidator (Some exLimitZero) = None \<and> qo_limit exLimitZero = Some 0
   \<and> (\<exists>r. fs_getUsers staticValidator (Some exLimitZero) exFileSystem = Inr r
            \<and> items r = [exAlice, exBob])"
proof -
  have h1: "validateQueryOptions staticValidator (Some exLimitZero) = None"
    by (simp add: staticValidator_simps)
  have h2: "qo_limit exLimitZero = Some 0"
    by (simp add: exLimitZero_def)
  have all: "applySort (Some exLimitZero) (applyFilter (Some exLimitZero) (fs_users (data exFileSystem)))
             = [exAlice, exBob]"
    by (simp add: applySort_def applyFilter_def exLimitZero_def exFileSystem_def exData_def)
  from getUsers_limit_zero_returns_all [OF h1 h2, of exMemory exFileSystem] all
  have "\<exists>r. fs_getUsers staticValidator (Some exLimitZero) exFileSystem = Inr r
            \<and> items r = [exAlice, exBob]"
    by auto
  with h1 h2 show ?thesis by simp
qed

section \<open>The hook pipeline\<close>

lemma runHooks_append: "runHooks (xs @ ys) d = runHooks ys (runHooks xs d)"
  by (induction xs arbitrary: d) (auto split: prod.splits hookOutcome.splits option.splits)

lemma runHooks_filter:
  "(\<And>h c. h \<in> set hs \<Longrightarrow> \<not> P h \<Longrightarrow> callback h c = (c, Throws))
     \<Longrightarrow> runHooks (filter P hs) d = runHooks hs d"
  by (induction hs arbitrary: d) (auto split: prod.splits hookOutcome.splits option.splits)

text \<open>The sort of \<^verbatim>\<open>registerHook\<close> is the stable sort by descending priority.\<close>

lemma insertBy_priority:
  "insertBy (\<lambda>a b. priority b - priority a) x ys = insort_key (\<lambda>h. - priority h) x ys"
  by (induction ys) auto

lemma sortBy_priority:
  "sortBy (\<lambda>a b. priority b - priority a) xs = sort_key (\<lambda>h. - priority h) xs"
  by (induction xs) (simp_all add: sortBy_def insertBy_priority)

lemma hooks_registerHook_same:
  "map_of (hooks (registerHook event cb prio hm)) event =
     Some (sortBy (\<lambda>a b. priority b - priority a)
        ((case map_of (hooks hm) event of None \<Rightarrow> [] | Some hs \<Rightarrow> hs)
          @ [\<lparr>name = event, callback = cb, priority = prio\<rparr>]))"
  by (auto simp: registerHook_def Let_def update_conv')



text \<open>
  The three interceptors of the example, registered on \<^verbatim>\<open>user.preCreate\<close> with the
  priorities 0, 1 and 2, run in the order of descending priority.
\<close>

lemma exChain_hooks:
  "map_of (hooks (registerHook ''user.preCreate'' exAddSource 2
                   (registerHook ''user.preCreate'' exThrowing 1
                     (registerHook ''user.preCreate'' exAddAudit 0 noHooks)))) ''user.preCreate''
     = Some ([\<lparr>name = ''user.preCreate'', callback = exAddSource, priority = 2\<rparr>]
             @ \<lparr>name = ''user.preCreate'', callback = exThrowing, priority = 1\<rparr>
             # [\<lparr>name = ''user.preCreate'', callback = exAddAudit, priority = 0\<rparr>])"
  by (simp add: hooks_registerHook_same noHooks_def sortBy_def)

text \<open>
  C9 (as amended).  When an interceptor of the event's list fails, \<^verbatim>\<open>executeHooks\<close>
  swallows the failure and still returns: the interceptors after it run, on the context
  as the failing interceptor left it, and when it was the last one that context is the
  result.  The context is restored by nobody, so it goes on unchanged only when the
  interceptor did not change it before failing; then the result is the one of the list
  without that interceptor, and a failing interceptor on \<^verbatim>\<open>user.preCreate\<close> changes
  nothing of what \<^verbatim>\<open>createUser\<close> does.  When it is the only interceptor the adapter is
  called with the \<^verbatim>\<open>userData\<close> of the context it left, which is the original input
  when it left the context alone.  In a chain of three, where the first returns a
  fragment, the second fails and the third returns a fragment, the second is called
  with the first one's merge and the result is the third one's merge.
\<close>

theorem executeHooks_swallows_failures:
  assumes "map_of (hooks hm) event = Some (before @ h # after)"
      and "callback h (runHooks before ctx) = (left, Throws)"
  shows "executeHooks hm event ctx = runHooks after left
       \<and> (after = [] \<longrightarrow> executeHooks hm event ctx = left)
       \<and> (left = runHooks before ctx \<longrightarrow>
            executeHooks hm event ctx
              = executeHooks (hm\<lparr>hooks := AList.update event (before @ after) (hooks hm)\<rparr>) event ctx)
       \<and> (left = runHooks before ctx \<and> event = ''user.preCreate'' \<and> ctx = [(''userData'', userData)] \<longrightarrow>
            UserManager_createUser adapter hm userData s
            = UserManager_createUser adapter
                (hm\<lparr>hooks := AList.update event (before @ after) (hooks hm)\<rparr>) userData s)
       \<and> (event = ''user.preCreate'' \<and> ctx = [(''userData'', userData)] \<and> before = [] \<and> after = [] \<longrightarrow>
            UserManager_createUser adapter hm userData s
              = createUser adapter (getProp left ''userData'') s
            \<and> (left = ctx \<longrightarrow> UserManager_createUser adapter hm userData s = createUser adapter userData s))
       \<and> (\<forall>h1 c1 f1 h2 c2 f2.
             before = [h1] \<and> callback h1 ctx = (c1, Returns (Some f1))
             \<and> after = [h2] \<and> callback h2 left = (c2, Returns (Some f2)) \<longrightarrow>
               callback h (spread c1 f1) = (left, Throws)
               \<and> executeHooks hm event ctx = spread c2 f2)"
proof -
  let ?hm' = "hm\<lparr>hooks := AList.update event (before @ after) (hooks hm)\<rparr>"
  have run: "executeHooks hm event ctx = runHooks after left"
    using assms by (simp add: executeHooks_def runHooks_append)
  have last: "executeHooks hm event ctx = left" if "after = []"
    using that run by simp
  have run': "executeHooks ?hm' event ctx = runHooks after (runHooks before ctx)"
    by (simp add: executeHooks_def update_conv' runHooks_append)
  have same: "executeHooks hm event ctx = executeHooks ?hm' event ctx" if "left = runHooks before ctx"
    using that run run' by simp
  have other: "\<And>e c. e \<noteq> event \<Longrightarrow> executeHooks ?hm' e c = executeHooks hm e c"
    by (simp add: executeHooks_def update_conv')
  have c3: "UserManager_createUser adapter hm userData s = UserManager_createUser adapter ?hm' userData s"
    if "left = runHooks before ctx" "event = ''user.preCreate''" "ctx = [(''userData'', userData)]"
    using that same by (simp add: UserManager_createUser_def Let_def split: sum.splits)
  have c4: "UserManager_createUser adapter hm userData s = createUser adapter (getProp left ''userData'') s"
    if "event = ''user.preCreate''" "ctx = [(''userData'', userData)]" "before = []" "after = []"
    using that run by (simp add: UserManager_createUser_def Let_def split: sum.splits prod.splits)
  have c5: "UserManager_createUser adapter hm userData s = createUser adapter userData s"
    if "event = ''user.preCreate''" "ctx = [(''userData'', userData)]" "before = []" "after = []"
       "left = ctx"
    using c4 [OF that(1-4)] that(2,5) by (simp add: getProp_def)
  have chain: "callback h (spread c1 f1) = (left, Throws) \<and> executeHooks hm event ctx = spread c2 f2"
    if "before = [h1]" "callback h1 ctx = (c1, Returns (Some f1))"
       "after = [h2]" "callback h2 left = (c2, Returns (Some f2))"
    for h1 c1 f1 h2 c2 f2
    using that assms(2) run by simp
  from run last same c3 c4 c5 chain show ?thesis by blast
qed

theorem executeHooks_swallows_failures_witness:
  "map_of (hooks (registerHook ''user.preCreate'' exAddSource 2
                   (registerHook ''user.preCreate'' exThrowing 1
                     (registerHook ''user.preCreate'' exAddAudit 0 noHooks)))) ''user.preCreate''
     = Some ([\<lparr>name = ''user.preCreate'', callback = exAddSource, priority = 2\<rparr>]
             @ \<lparr>name = ''user.preCreate'', callback = exThrowing, priority = 1\<rparr>
             # [\<lparr>name = ''user.preCreate'', callback = exAddAudit, priority = 0\<rparr>])
   \<and> exThrowing (runHooks [\<lparr>name = ''user.preCreate'', callback = exAddSource, priority = 2\<rparr>]
                   [(''userData'', JObj exAlice)])
       = ([(''userData'', JObj exAlice), (''source'', JStr ''import'')], Throws)
   \<and> executeHooks (registerHook ''user.preCreate'' exAddSource 2
                     (registerHook ''user.preCreate'' exThrowing 1
                       (registerHook ''user.preCreate'' exAddAudit 0 noHooks)))
        ''user.preCreate'' [(''userData'', JObj exAlice)]
       = [(''userData'', JObj exAlice), (''source'', JStr ''import''), (''audited'', JBool True)]
   \<and> map_of (hooks (registerHook ''user.preCreate'' exThrowing 0 noHooks)) ''user.preCreate''
       = Some ([] @ \<lparr>name = ''user.preCreate'', callback = exThrowing, priority = 0\<rparr> # [])
   \<and> exThrowing (runHooks [] [(''userData'', JObj exAlice)]) = ([(''userData'', JObj exAlice)], Throws)
   \<and> UserManager_createUser exAdapter (registerHook ''user.preCreate'' exThrowing 0 noHooks) (JObj exAlice) ()
       = Inr (JObj exAlice, ())"
proof -
  let ?e = "''user.preCreate''"
  let ?ctx = "[(''userData'', JObj exAlice)]"
  let ?mid = "[(''userData'', JObj exAlice), (''source'', JStr ''import'')]"
  let ?h1 = "\<lparr>name = ?e, callback = exAddSource, priority = 2\<rparr>"
  let ?h = "\<lparr>name = ?e, callback = exThrowing, priority = 1\<rparr>"
  let ?h2 = "\<lparr>name = ?e, callback = exAddAudit, priority = 0\<rparr>"
  let ?hm = "registerHook ?e exAddSource 2 (registerHook ?e exThrowing 1 (registerHook ?e exAddAudit 0 noHooks))"
  have a1: "map_of (hooks ?hm) ?e = Some ([?h1] @ ?h # [?h2])"
    by (rule exChain_hooks)
  have a2: "callback ?h (runHooks [?h1] ?ctx) = (?mid, Throws)"
    by (simp add: exThrowing_def exAddSource_def spread_def)
  note t = executeHooks_swallows_failures [OF a1 a2, of undefined undefined undefined]
  have k1: "callback ?h1 ?ctx = (?ctx, Returns (Some [(''source'', JStr ''import'')]))"
    by (simp add: exAddSource_def)
  have k2: "callback ?h2 ?mid = (?mid, Returns (Some [(''audited'', JBool True)]))"
    by (simp add: exAddAudit_def)
  from t [THEN conjunct2, THEN conjunct2, THEN conjunct2, THEN conjunct2, THEN conjunct2, rule_format,
          of ?h1 ?ctx "[(''source'', JStr ''import'')]" ?h2 ?mid "[(''audited'', JBool True)]"] k1 k2
  have "executeHooks ?hm ?e ?ctx = spread ?mid [(''audited'', JBool True)]"
    by simp
  then have chain: "executeHooks ?hm ?e ?ctx
       = [(''userData'', JObj exAlice), (''source'', JStr ''import''), (''audited'', JBool True)]"
    by (simp add: spread_def)
  let ?g = "\<lparr>name = ?e, callback = exThrowing, priority = 0\<rparr>"
  let ?gm = "registerHook ?e exThrowing 0 noHooks"
  have b1: "map_of (hooks ?gm) ?e = Some ([] @ ?g # [])"
    by (simp add: registerHook_def noHooks_def sortBy_def)
  have b2: "callback ?g (runHooks [] ?ctx) = (?ctx, Throws)"
    by (simp add: exThrowing_def)
  note u = executeHooks_swallows_failures [OF b1 b2, of "JObj exAlice" exAdapter "()"]
  from u [THEN conjunct2, THEN conjunct2, THEN conjunct2, THEN conjunct2, THEN conjunct1]
  have "UserManager_createUser exAdapter ?gm (JObj exAlice) () = createUser exAdapter (JObj exAlice) ()"
    by (simp add: getProp_def)
  then have single: "UserManager_createUser exAdapter ?gm (JObj exAlice) () = Inr (JObj exAlice, ())"
    by (simp add: exAdapter_def)
  from a1 a2 chain b1 b2 single show ?thesis by simp
qed

text \<open>
  The claim as stated fails: an interceptor on \<^verbatim>\<open>user.preCreate\<close> that overwrites
  \<^verbatim>\<open>data.userData\<close> and then fails leaves the running context changed, and the adapter
  creates the user from the overwritten data, not from the original input.
\<close>

theorem executeHooks_swallows_failures_counterexample:
  "exOverwriteThenThrow [(''userData'', JObj exInput)] = ([(''userData'', JObj exMallory)], Throws)
   \<and> executeHooks (registerHook ''user.preCreate'' exOverwriteThenThrow 0 noHooks) ''user.preCreate''
        [(''userData'', JObj exInput)] = [(''userData'', JObj exMallory)]
   \<and> UserManager_createUser exAdapter (registerHook ''user.preCreate'' exOverwriteThenThrow 0 noHooks)
        (JObj exInput) () = Inr (JObj exMallory, ())
   \<and> exMallory \<noteq> exInput"
  by (simp add: UserManager_createUser_def Let_def executeHooks_def registerHook_def noHooks_def
      sortBy_def exOverwriteThenThrow_def getProp_def exAdapter_def exMallory_def exInput_def)



section \<open>assignRole and the entities it requires\<close>





section \<open>Updates and the identifier\<close>

lemma map_of_spread_absent: "map_of b k = None \<Longrightarrow> map_of (spread a b) k = map_of a k"
  unfolding spread_def
  by (induction b arbitrary: a) (auto simp: update_conv' split: if_splits)

lemma getProp_spread_absent: "map_of b k = None \<Longrightarrow> getProp (spread a b) k = getProp a k"
  by (simp add: getProp_def map_of_spread_absent)

lemma getProp_update: "getProp (AList.update k' v a) k = (if k = k' then v else getProp a k)"
  by (simp add: getProp_def update_conv')

lemma hasId_iff: "hasId ident entity \<longleftrightarrow> getProp entity ''id'' = JStr ident"
  by (cases "getProp entity ''id''") (auto simp: hasId_def)

lemma findIndex_Some:
  "findIndex P xs = Some i \<Longrightarrow> i < length xs \<and> P (xs ! i) \<and> (\<forall>j<i. \<not> P (xs ! j))"
proof (induction xs arbitrary: i)
  case Nil
  then show ?case by simp
next
  case (Cons x xs)
  show ?case
  proof (cases "P x")
    case True
    with Cons.prems show ?thesis by simp
  next
    case False
    with Cons.prems obtain k where k: "findIndex P xs = Some k" "i = Suc k"
      by (auto split: option.splits)
    from Cons.IH [OF k(1)] False k(2) show ?thesis
      by (auto simp: less_Suc_eq_0_disj)
  qed
qed

lemma findIndex_None: "findIndex P xs = None \<longleftrightarrow> find P xs = None"
  by (induction xs) (auto split: option.splits)

lemma find_update_at_findIndex:
  "findIndex P xs = Some i \<Longrightarrow> P y \<Longrightarrow> find P (xs[i := y]) = Some y"
proof (induction xs arbitrary: i)
  case Nil
  then show ?case by simp
next
  case (Cons x xs)
  then show ?case
    by (cases "P x") (auto split: option.splits)
qed

lemma getUserMap_putUserMap: "getUserMap (putUserMap m s) = m"
  by (auto simp: getUserMap_def putUserMap_def split: option.splits)

lemma getRoleMap_putRoleMap: "getRoleMap (putRoleMap m s) = m"
  by (auto simp: getRoleMap_def putRoleMap_def split: option.splits)


lemma mem_update_keeps_id:
  assumes "map_of payload ''id'' = None"
      and "mem_getUserById V ident m = Inr (Some u)" and "getProp u ''id'' = JStr ident"
      and "mem_updateUser V ident payload now m = Inr (res, m')"
  shows "\<exists>u'. res = Some u' \<and> mem_getUserById V ident m' = Inr (Some u') \<and> getProp u' ''id'' = JStr ident"
  using assms
  by (auto simp: mem_getUserById_def mem_updateUser_def Let_def getUserMap_putUserMap update_conv'
      getProp_update getProp_spread_absent split: option.splits if_splits)

lemma mem_updateRole_keeps_id:
  assumes "map_of payload ''id'' = None"
      and "mem_getRoleById V ident m = Inr (Some u)" and "getProp u ''id'' = JStr ident"
      and "mem_updateRole V ident payload now m = Inr (res, m')"
  shows "\<exists>u'. res = Some u' \<and> mem_getRoleById V ident m' = Inr (Some u') \<and> getProp u' ''id'' = JStr ident"
  using assms
  by (auto simp: mem_getRoleById_def mem_updateRole_def Let_def getRoleMap_putRoleMap update_conv'
      getProp_update getProp_spread_absent split: option.splits if_splits)

lemma data_saveUnlessInTransaction: "data (saveUnlessInTransaction s) = data s"
  by (simp add: saveUnlessInTransaction_def saveData_def)

lemma fs_update_keeps_id:
  assumes "map_of payload ''id'' = None"
      and "fs_getUserById V ident d = Inr (Some u)"
      and "fs_updateUser V ident payload now d = Inr (res, d')"
  shows "\<exists>u'. res = Some u' \<and> fs_getUserById V ident d' = Inr (Some u') \<and> getProp u' ''id'' = JStr ident"
proof -
  from assms(2) have v: "validateId V ident = None" and f: "find (hasId ident) (fs_users (data d)) = Some u"
    by (auto simp: fs_getUserById_def split: option.splits)
  from f obtain i where i: "findIndex (hasId ident) (fs_users (data d)) = Some i"
    using findIndex_None [of "hasId ident" "fs_users (data d)"]
    by (cases "findIndex (hasId ident) (fs_users (data d))") auto
  define u' where "u' = AList.update ''updatedAt'' (JDate now) (spread (fs_users (data d) ! i) payload)"
  from findIndex_Some [OF i] have "hasId ident (fs_users (data d) ! i)" by simp
  then have id': "hasId ident u'"
    using assms(1) by (simp add: u'_def hasId_iff getProp_update getProp_spread_absent)
  from assms(3) v i have "res = Some u' \<and>
      d' = saveUnlessInTransaction (d\<lparr>data := (data d)\<lparr>fs_users := (fs_users (data d))[i := u']\<rparr>\<rparr>)"
    by (simp add: fs_updateUser_def Let_def u'_def split: if_splits)
  then have res: "res = Some u'" and d': "fs_users (data d') = (fs_users (data d))[i := u']"
    by (simp_all add: data_saveUnlessInTransaction)
  from find_update_at_findIndex [OF i id'] d' v
  have "fs_getUserById V ident d' = Inr (Some u')"
    by (simp add: fs_getUserById_def)
  with res id' show ?thesis by (simp add: hasId_iff)
qed

lemma fs_updateRole_keeps_id:
  assumes "map_of payload ''id'' = None"
      and "fs_getRoleById V ident d = Inr (Some u)"
      and "fs_updateRole V ident payload now d = Inr (res, d')"
  shows "\<exists>u'. res = Some u' \<and> fs_getRoleById V ident d' = Inr (Some u') \<and> getProp u' ''id'' = JStr ident"
proof -
  from assms(2) have v: "validateId V ident = None" and f: "find (hasId ident) (fs_roles (data d)) = Some u"
    by (auto simp: fs_getRoleById_def split: option.splits)
  from f obtain i where i: "findIndex (hasId ident) (fs_roles (data d)) = Some i"
    using findIndex_None [of "hasId ident" "fs_roles (data d)"]
    by (cases "findIndex (hasId ident) (fs_roles (data d))") auto
  define u' where "u' = AList.update ''updatedAt'' (JDate now) (spread (fs_roles (data d) ! i) payload)"
  from findIndex_Some [OF i] have "hasId ident (fs_roles (data d) ! i)" by simp
  then have id': "hasId ident u'"
    using assms(1) by (simp add: u'_def hasId_iff getProp_update getProp_spread_absent)
  from assms(3) v i have "res = Some u' \<and>
      d' = saveUnlessInTransaction (d\<lparr>data := (data d)\<lparr>fs_roles := (fs_roles (data d))[i := u']\<rparr>\<rparr>)"
    by (simp add: fs_updateRole_def Let_def u'_def split: if_splits)
  then have res: "res = Some u'" and d': "fs_roles (data d') = (fs_roles (data d))[i := u']"
    by (simp_all add: data_saveUnlessInTransaction)
  from find_update_at_findIndex [OF i id'] d' v
  have "fs_getRoleById V ident d' = Inr (Some u')"
    by (simp add: fs_getRoleById_def)
  with res id' show ?thesis by (simp add: hasId_iff)
qed

text \<open>
  C5 (as amended).  When the update payload has no \<open>id\<close> property, \<^verbatim>\<open>updateUser\<close> and
  \<^verbatim>\<open>updateRole\<close> leave the identifier as it is: if the entity found under \<open>ident\<close>
  carries that id, then after an update that returns, the record returned is the one
  found under \<open>ident\<close> and it carries the same id.
\<close>

theorem update_keeps_id_when_payload_has_none:
  assumes "map_of payload ''id'' = None"
  shows "(\<forall>u res m'. mem_getUserById V ident m = Inr (Some u) \<and> getProp u ''id'' = JStr ident
              \<and> mem_updateUser V ident payload now m = Inr (res, m')
            \<longrightarrow> (\<exists>u'. res = Some u' \<and> mem_getUserById V ident m' = Inr (Some u')
                       \<and> getProp u' ''id'' = JStr ident))
       \<and> (\<forall>r res m'. mem_getRoleById V ident m = Inr (Some r) \<and> getProp r ''id'' = JStr ident
              \<and> mem_updateRole V ident payload now m = Inr (res, m')
            \<longrightarrow> (\<exists>r'. res = Some r' \<and> mem_getRoleById V ident m' = Inr (Some r')
                       \<and> getProp r' ''id'' = JStr ident))
       \<and> (\<forall>u res d'. fs_getUserById V ident d = Inr (Some u)
              \<and> fs_updateUser V ident payload now d = Inr (res, d')
            \<longrightarrow> (\<exists>u'. res = Some u' \<and> fs_getUserById V ident d' = Inr (Some u')
                       \<and> getProp u' ''id'' = JStr ident))
       \<and> (\<forall>r res d'. fs_getRoleById V ident d = Inr (Some r)
              \<and> fs_updateRole V ident payload now d = Inr (res, d')
            \<longrightarrow> (\<exists>r'. res = Some r' \<and> fs_getRoleById V ident d' = Inr (Some r')
                       \<and> getProp r' ''id'' = JStr ident))"
proof (intro conjI allI impI)
  fix u res m'
  assume "mem_getUserById V ident m = Inr (Some u) \<and> getProp u ''id'' = JStr ident
            \<and> mem_updateUser V ident payload now m = Inr (res, m')"
  then show "\<exists>u'. res = Some u' \<and> mem_getUserById V ident m' = Inr (Some u')
                  \<and> getProp u' ''id'' = JStr ident"
    by (elim conjE) (rule mem_update_keeps_id [OF assms])
next
  fix r res m'
  assume "mem_getRoleById V ident m = Inr (Some r) \<and> getProp r ''id'' = JStr ident
            \<and> mem_updateRole V ident payload now m = Inr (res, m')"
  then show "\<exists>r'. res = Some r' \<and> mem_getRoleById V ident m' = Inr (Some r')
                  \<and> getProp r' ''id'' = JStr ident"
    by (elim conjE) (rule mem_updateRole_keeps_id [OF assms])
next
  fix u res d'
  assume "fs_getUserById V ident d = Inr (Some u) \<and> fs_updateUser V ident payload now d = Inr (res, d')"
  then show "\<exists>u'. res = Some u' \<and> fs_getUserById V ident d' = Inr (Some u')
                  \<and> getProp u' ''id'' = JStr ident"
    by (elim conjE) (rule fs_update_keeps_id [OF assms])
next
  fix r res d'
  assume "fs_getRoleById V ident d = Inr (Some r) \<and> fs_updateRole V ident payload now d = Inr (res, d')"
  then show "\<exists>r'. res = Some r' \<and> fs_getRoleById V ident d' = Inr (Some r')
                  \<and> getProp r' ''id'' = JStr ident"
    by (elim conjE) (rule fs_updateRole_keeps_id [OF assms])
qed

lemma exAliceMoved_eq: "exAliceMoved = [(''username'', JStr ''alice''),
        (''email'', JStr ''new@example.com''), (''id'', JStr ''u1''),
        (''createdAt'', JDate 1000), (''updatedAt'', JDate 9000)]"
  by (simp add: exAliceMoved_def exNewEmail_def spread_def exAlice_eq)

lemma exRenamed_eq: "exRenamed = [(''username'', JStr ''alice''),
        (''email'', JStr ''alice@example.com''), (''id'', JStr ''u9''),
        (''createdAt'', JDate 1000), (''updatedAt'', JDate 9000)]"
  by (simp add: exRenamed_def spread_def exAlice_eq)

lemma validateUser_examples:
  "validateUser staticValidator exAlice = []"
  "validateUser staticValidator exAliceMoved = []"
  "validateUser staticValidator exRenamed = []"
  by (simp_all add: staticValidator_simps validate_eval getProp_def exAlice_eq exAliceMoved_eq
      exRenamed_eq)

lemma ex_update_mem:
  "mem_updateUser staticValidator ''u1'' exNewEmail 9000 exMemory
    = Inr (Some exAliceMoved, exMemory\<lparr>users := [(''u1'', exAliceMoved), (''u2'', exBob)]\<rparr>)"
proof -
  have v: "validateUser staticValidator (spread exAlice exNewEmail) = []"
    by (simp add: staticValidator_simps validate_eval getProp_def exAlice_eq exNewEmail_def spread_def)
  show ?thesis
    by (simp add: mem_updateUser_def staticValidator_simps(1) v exMemory_def getUserMap_def
        putUserMap_def Let_def exAliceMoved_def)
qed

theorem update_keeps_id_when_payload_has_none_witness:
  "map_of exNewEmail ''id'' = None
   \<and> mem_getUserById staticValidator ''u1'' exMemory = Inr (Some exAlice)
   \<and> getProp exAlice ''id'' = JStr ''u1''
   \<and> mem_updateUser staticValidator ''u1'' exNewEmail 9000 exMemory
       = Inr (Some exAliceMoved, exMemory\<lparr>users := [(''u1'', exAliceMoved), (''u2'', exBob)]\<rparr>)
   \<and> mem_getUserById staticValidator ''u1'' (exMemory\<lparr>users := [(''u1'', exAliceMoved), (''u2'', exBob)]\<rparr>)
       = Inr (Some exAliceMoved)
   \<and> getProp exAliceMoved ''id'' = JStr ''u1''"
proof -
  have h: "map_of exNewEmail ''id'' = None"
    by (simp add: exNewEmail_def)
  have g: "mem_getUserById staticValidator ''u1'' exMemory = Inr (Some exAlice)"
    by (simp add: mem_getUserById_def staticValidator_simps exMemory_def getUserMap_def)
  have i: "getProp exAlice ''id'' = JStr ''u1''"
    by (simp add: exAlice_eq getProp_def)
  note u = ex_update_mem
  from update_keeps_id_when_payload_has_none [OF h, of staticValidator "''u1''" exMemory 9000,
      THEN conjunct1, rule_format, OF conjI [OF g conjI [OF i u]]]
  have "mem_getUserById staticValidator ''u1'' (exMemory\<lparr>users := [(''u1'', exAliceMoved), (''u2'', exBob)]\<rparr>)
       = Inr (Some exAliceMoved) \<and> getProp exAliceMoved ''id'' = JStr ''u1''"
    by auto
  with h g i u show ?thesis by (intro conjI) (elim conjE, assumption)+
qed

text \<open>
  The claim as stated fails: the payload \<^verbatim>\<open>{ id: 'u9' }\<close> is spread over the stored
  record, and the record found under \<open>u1\<close> afterwards carries the id \<open>u9\<close>.
\<close>

theorem update_with_id_in_payload_counterexample:
  "mem_getUserById staticValidator ''u1'' exMemory = Inr (Some exAlice)
   \<and> mem_updateUser staticValidator ''u1'' [(''id'', JStr ''u9'')] 9000 exMemory
       = Inr (Some exRenamed, exMemory\<lparr>users := [(''u1'', exRenamed), (''u2'', exBob)]\<rparr>)
   \<and> mem_getUserById staticValidator ''u1'' (exMemory\<lparr>users := [(''u1'', exRenamed), (''u2'', exBob)]\<rparr>)
       = Inr (Some exRenamed)
   \<and> getProp exRenamed ''id'' = JStr ''u9''"
proof -
  have v: "validateUser staticValidator (spread exAlice [(''id'', JStr ''u9'')]) = []"
    by (simp add: staticValidator_simps validate_eval getProp_def exAlice_eq spread_def)
  have a: "mem_getUserById staticValidator ''u1'' exMemory = Inr (Some exAlice)"
    by (simp add: mem_getUserById_def staticValidator_simps exMemory_def getUserMap_def)
  have b: "mem_updateUser staticValidator ''u1'' [(''id'', JStr ''u9'')] 9000 exMemory
       = Inr (Some exRenamed, exMemory\<lparr>users := [(''u1'', exRenamed), (''u2'', exBob)]\<rparr>)"
    by (simp add: mem_updateUser_def staticValidator_simps(1) v exMemory_def getUserMap_def
        putUserMap_def Let_def exRenamed_def)
  have c: "mem_getUserById staticValidator ''u1'' (exMemory\<lparr>users := [(''u1'', exRenamed), (''u2'', exBob)]\<rparr>)
       = Inr (Some exRenamed)"
    by (simp add: mem_getUserById_def staticValidator_simps exMemory_def getUserMap_def)
  have d: "getProp exRenamed ''id'' = JStr ''u9''"
    by (simp add: exRenamed_eq getProp_def)
  from a b c d show ?thesis by (intro conjI)
qed

section \<open>Deleting an entity removes its associations\<close>

text \<open>
  The create operations keep the regular shape of the stores: the memory adapter puts
  the new record under the id it carries, and the file-system adapter appends a record
  whose id, when no stored record has it yet, differs from all the others.
\<close>

lemma set_update_subset: "set (AList.update k v al) \<subseteq> insert (k, v) (set al)"
  by (induction al) auto

lemma getProp_newEntity_id: "getProp (newEntity entityData ident now) ''id'' = JStr ident"
  by (simp add: newEntity_def getProp_update)

lemma keyedById_update:
  "keyedById m \<Longrightarrow> getProp entity ''id'' = JStr k \<Longrightarrow> keyedById (AList.update k entity m)"
  using set_update_subset [of k entity m] by (auto simp: keyedById_def list_all_iff)

lemma mem_create_keeps_shape:
  "keyedById (getUserMap m) \<Longrightarrow> mem_createUser V userData ident now m = Inr (u, m')
     \<Longrightarrow> keyedById (getUserMap m')"
  "keyedById (getRoleMap m) \<Longrightarrow> mem_createRole V roleData ident now m = Inr (r, m')
     \<Longrightarrow> keyedById (getRoleMap m')"
  by (auto simp: mem_createUser_def mem_createRole_def Let_def getUserMap_putUserMap
      getRoleMap_putRoleMap keyedById_update getProp_newEntity_id split: if_splits)

lemma fs_create_keeps_shape:
  "distinctIds (fs_users (data d)) \<Longrightarrow> \<not> list_ex (hasId ident) (fs_users (data d))
     \<Longrightarrow> fs_createUser V userData ident now d = Inr (u, d') \<Longrightarrow> distinctIds (fs_users (data d'))"
  "distinctIds (fs_roles (data d)) \<Longrightarrow> \<not> list_ex (hasId ident) (fs_roles (data d))
     \<Longrightarrow> fs_createRole V roleData ident now d = Inr (r, d') \<Longrightarrow> distinctIds (fs_roles (data d'))"
  by (auto simp: fs_createUser_def fs_createRole_def Let_def data_saveUnlessInTransaction
      distinctIds_def getProp_newEntity_id hasId_iff list_ex_iff split: if_splits) blast+



lemma getUserMap_putUserRoleMap: "getUserMap (putUserRoleMap m s) = getUserMap s"
  by (auto simp: getUserMap_def putUserRoleMap_def split: option.splits)


lemma getRoleMap_putUserMap: "getRoleMap (putUserMap m s) = getRoleMap s"
  by (auto simp: getRoleMap_def putUserMap_def split: option.splits)

lemma getUserMap_putRoleMap: "getUserMap (putRoleMap m s) = getUserMap s"
  by (auto simp: getUserMap_def putRoleMap_def split: option.splits)
















lemma example_ids:
  "getProp exAlice ''id'' = JStr ''u1''" "getProp exBob ''id'' = JStr ''u2''"
  "getProp exAdmin ''id'' = JStr ''r1''"
  by (simp_all add: exAlice_eq exBob_eq exAdmin_eq getProp_def)



lemma exFileSystem_saved: "exFileSystem = exSaved exData"
  by (simp add: exFileSystem_def exSaved_def)


section \<open>assignRole is idempotent\<close>


text \<open>Without the condition on colons two pairs can share a key.\<close>

lemma assocKey_collision: "assocKey ''a:b'' ''c'' = assocKey ''a'' ''b:c''"
  by (simp add: assocKey_def)































section \<open>Rollback\<close>

lemma mem_openOver_put:
  "mem_openOver s0 s \<Longrightarrow> mem_openOver s0 (putUserMap m s)"
  "mem_openOver s0 s \<Longrightarrow> mem_openOver s0 (putRoleMap m s)"
  "mem_openOver s0 s \<Longrightarrow> mem_openOver s0 (putUserRoleMap ur s)"
  by (auto simp: mem_openOver_def putUserMap_def putRoleMap_def putUserRoleMap_def)

lemma mem_openOver_after:
  "mem_openOver s0 s \<Longrightarrow> (\<And>v s'. r = Inr (v, s') \<Longrightarrow> mem_openOver s0 s') \<Longrightarrow> mem_openOver s0 (stateAfter s r)"
  by (auto simp: stateAfter_def split: sum.splits)

lemma mem_mutate_openOver:
  assumes "mem_openOver s0 s"
  shows "mem_openOver s0 (mem_mutate V op s)"
proof (cases op)
  case (CreateUser userData ident now)
  show ?thesis unfolding CreateUser mem_mutate.simps
    by (rule mem_openOver_after [OF assms])
       (auto simp: mem_createUser_def Let_def mem_openOver_put assms split: if_splits)
next
  case (UpdateUser ident userData now)
  show ?thesis unfolding UpdateUser mem_mutate.simps
    by (rule mem_openOver_after [OF assms])
       (auto simp: mem_updateUser_def Let_def mem_openOver_put assms split: if_splits option.splits)
next
  case (DeleteUser ident)
  show ?thesis unfolding DeleteUser mem_mutate.simps
    by (rule mem_openOver_after [OF assms])
       (auto simp: mem_deleteUser_def Let_def mem_openOver_put assms split: if_splits option.splits)
next
  case (CreateRole roleData ident now)
  show ?thesis unfolding CreateRole mem_mutate.simps
    by (rule mem_openOver_after [OF assms])
       (auto simp: mem_createRole_def Let_def mem_openOver_put assms split: if_splits)
next
  case (UpdateRole ident roleData now)
  show ?thesis unfolding UpdateRole mem_mutate.simps
    by (rule mem_openOver_after [OF assms])
       (auto simp: mem_updateRole_def Let_def mem_openOver_put assms split: if_splits option.splits)
next
  case (DeleteRole ident)
  show ?thesis unfolding DeleteRole mem_mutate.simps
    by (rule mem_openOver_after [OF assms])
       (auto simp: mem_deleteRole_def Let_def mem_openOver_put assms split: if_splits option.splits)
next
  case (AssignRole uid rid now)
  show ?thesis unfolding AssignRole mem_mutate.simps
    by (rule mem_openOver_after [OF assms])
       (auto simp: mem_assignRole_def Let_def mem_openOver_put assms split: if_splits option.splits)
next
  case (RemoveRole uid rid)
  show ?thesis unfolding RemoveRole mem_mutate.simps
    by (rule mem_openOver_after [OF assms])
       (auto simp: mem_removeRole_def Let_def mem_openOver_put assms split: if_splits option.splits)
qed

lemma mem_fold_openOver:
  "mem_openOver s0 s \<Longrightarrow> mem_openOver s0 (fold (mem_mutate V) ops s)"
  by (induction ops arbitrary: s) (simp_all add: mem_mutate_openOver)

text \<open>
  The memory adapter: whatever is done between \<^verbatim>\<open>beginTransaction\<close> and \<^verbatim>\<open>rollback\<close>,
  the adapter is afterwards exactly the one before \<^verbatim>\<open>beginTransaction\<close>.
\<close>

lemma mem_rollback_restores:
  assumes "\<not> inTransaction s0" and "transactionData s0 = None"
  shows "\<exists>s1. mem_beginTransaction s0 = Inr s1 \<and> mem_rollback (fold (mem_mutate V) ops s1) = Inr s0"
proof -
  define s1 where "s1 = s0\<lparr>inTransaction := True,
                   transactionData := Some \<lparr>tx_users = users s0, tx_roles = roles s0,
                                             tx_userRoles = userRoles s0\<rparr>\<rparr>"
  have b: "mem_beginTransaction s0 = Inr s1"
    using assms by (simp add: mem_beginTransaction_def s1_def)
  have "mem_openOver s0 s1"
    by (simp add: mem_openOver_def s1_def)
  then have o: "mem_openOver s0 (fold (mem_mutate V) ops s1)"
    by (rule mem_fold_openOver)
  define s2 where "s2 = fold (mem_mutate V) ops s1"
  from o have "mem_rollback s2 = Inr (s2\<lparr>inTransaction := False, transactionData := None\<rparr>)"
    by (auto simp: mem_rollback_def mem_openOver_def s2_def)
  moreover from o assms have "s2\<lparr>inTransaction := False, transactionData := None\<rparr> = s0"
    by (cases s2; cases s0) (simp add: mem_openOver_def s2_def)
  ultimately show ?thesis
    using b by (simp add: s2_def)
qed

lemma fs_openOver_data:
  "fs_openOver snapshot s0 s \<Longrightarrow> fs_openOver snapshot s0 (saveUnlessInTransaction (s\<lparr>data := d\<rparr>))"
  by (simp add: fs_openOver_def saveUnlessInTransaction_def)

lemma fs_openOver_after:
  "fs_openOver snapshot s0 s \<Longrightarrow> (\<And>v s'. r = Inr (v, s') \<Longrightarrow> fs_openOver snapshot s0 s')
   \<Longrightarrow> fs_openOver snapshot s0 (stateAfter s r)"
  by (auto simp: stateAfter_def split: sum.splits)

lemma fs_mutate_openOver:
  assumes "fs_openOver snapshot s0 s"
  shows "fs_openOver snapshot s0 (fs_mutate V op s)"
proof (cases op)
  case (CreateUser userData ident now)
  show ?thesis unfolding CreateUser fs_mutate.simps
    by (rule fs_openOver_after [OF assms])
       (auto simp: fs_createUser_def Let_def fs_openOver_data assms split: if_splits)
next
  case (UpdateUser ident userData now)
  show ?thesis unfolding UpdateUser fs_mutate.simps
    by (rule fs_openOver_after [OF assms])
       (auto simp: fs_updateUser_def Let_def fs_openOver_data assms split: if_splits option.splits)
next
  case (DeleteUser ident)
  show ?thesis unfolding DeleteUser fs_mutate.simps
    by (rule fs_openOver_after [OF assms])
       (auto simp: fs_deleteUser_def Let_def fs_openOver_data assms split: if_splits option.splits)
next
  case (CreateRole roleData ident now)
  show ?thesis unfolding CreateRole fs_mutate.simps
    by (rule fs_openOver_after [OF assms])
       (auto simp: fs_createRole_def Let_def fs_openOver_data assms split: if_splits)
next
  case (UpdateRole ident roleData now)
  show ?thesis unfolding UpdateRole fs_mutate.simps
    by (rule fs_openOver_after [OF assms])
       (auto simp: fs_updateRole_def Let_def fs_openOver_data assms split: if_splits option.splits)
next
  case (DeleteRole ident)
  show ?thesis unfolding DeleteRole fs_mutate.simps
    by (rule fs_openOver_after [OF assms])
       (auto simp: fs_deleteRole_def Let_def fs_openOver_data assms split: if_splits option.splits)
next
  case (AssignRole uid rid now)
  show ?thesis unfolding AssignRole fs_mutate.simps
    by (rule fs_openOver_after [OF assms])
       (auto simp: fs_assignRole_def Let_def fs_openOver_data assms split: if_splits option.splits)
next
  case (RemoveRole uid rid)
  have "fs_openOver snapshot s0 (s\<lparr>data := d\<rparr>)" for d
    using assms by (simp add: fs_openOver_def)
  then show ?thesis unfolding RemoveRole fs_mutate.simps
    using assms
    by (intro fs_openOver_after [OF assms])
       (auto simp: fs_removeRole_def Let_def fs_openOver_def split: if_splits)
qed

lemma fs_fold_openOver:
  "fs_openOver snapshot s0 s \<Longrightarrow> fs_openOver snapshot s0 (fold (fs_mutate V) ops s)"
  by (induction ops arbitrary: s) (simp_all add: fs_mutate_openOver)

text \<open>
  The file-system adapter: whatever is done between \<^verbatim>\<open>beginTransaction\<close> and
  \<^verbatim>\<open>rollback\<close>, the adapter afterwards holds the JSON copy of the data it held before
  \<^verbatim>\<open>beginTransaction\<close>, and is otherwise as before.
\<close>

lemma fs_rollback_gives_json_copy:
  assumes "\<not> fs_inTransaction s0" and "fs_transactionData s0 = None"
  shows "\<exists>s1. fs_beginTransaction toISO s0 = Inr s1
           \<and> fs_rollback (fold (fs_mutate V) ops s1) = Inr (s0\<lparr>data := jsonCopyData toISO (data s0)\<rparr>)"
proof -
  define snapshot where "snapshot = jsonCopyData toISO (data s0)"
  define s1 where "s1 = s0\<lparr>fs_inTransaction := True, fs_transactionData := Some snapshot\<rparr>"
  have b: "fs_beginTransaction toISO s0 = Inr s1"
    using assms by (simp add: fs_beginTransaction_def s1_def snapshot_def)
  have "fs_openOver snapshot s0 s1"
    by (simp add: fs_openOver_def s1_def)
  then have o: "fs_openOver snapshot s0 (fold (fs_mutate V) ops s1)"
    by (rule fs_fold_openOver)
  define s2 where "s2 = fold (fs_mutate V) ops s1"
  from o have "fs_rollback s2 = Inr (s2\<lparr>data := snapshot, fs_inTransaction := False, fs_transactionData := None\<rparr>)"
    by (auto simp: fs_rollback_def fs_openOver_def s2_def)
  moreover from o assms have "s2\<lparr>data := snapshot, fs_inTransaction := False, fs_transactionData := None\<rparr>
       = s0\<lparr>data := snapshot\<rparr>"
    by (cases s2; cases s0) (simp add: fs_openOver_def s2_def)
  ultimately show ?thesis
    using b by (simp add: s2_def snapshot_def)
qed

lemma jsonCopyObj_exAlice: "jsonCopyObj toISO exAlice = exAliceJson toISO"
  by (simp add: jsonCopyObj_def exAlice_eq exAliceJson_def)

text \<open>
  C2, at a state the claim covers.  The file-system adapter holds user \<open>u1\<close> with
  \<^verbatim>\<open>Date\<close> timestamps; \<^verbatim>\<open>beginTransaction\<close> followed at once by \<^verbatim>\<open>rollback\<close> leaves it
  holding the JSON copy, where the timestamps of \<open>u1\<close> are ISO strings: the adapter is
  not the one before \<^verbatim>\<open>beginTransaction\<close>.
\<close>

theorem fs_rollback_changes_timestamps:
  "fs_getUserById staticValidator ''u1'' exFileSystem = Inr (Some exAlice)
   \<and> getProp exAlice ''createdAt'' = JDate 1000
   \<and> fs_beginTransaction toISO exFileSystem
       = Inr (exFileSystem\<lparr>fs_inTransaction := True,
                fs_transactionData := Some (jsonCopyData toISO exData)\<rparr>)
   \<and> fs_rollback (exFileSystem\<lparr>fs_inTransaction := True,
                fs_transactionData := Some (jsonCopyData toISO exData)\<rparr>)
       = Inr (exFileSystem\<lparr>data := jsonCopyData toISO exData\<rparr>)
   \<and> fs_getUserById staticValidator ''u1'' (exFileSystem\<lparr>data := jsonCopyData toISO exData\<rparr>)
       = Inr (Some (exAliceJson toISO))
   \<and> getProp (exAliceJson toISO) ''createdAt'' = JStr (toISO 1000)
   \<and> exFileSystem\<lparr>data := jsonCopyData toISO exData\<rparr> \<noteq> exFileSystem"
proof -
  have a: "fs_getUserById staticValidator ''u1'' exFileSystem = Inr (Some exAlice)"
    by (simp add: fs_getUserById_def staticValidator_simps exFileSystem_def exData_def hasId_iff example_ids)
  have b: "getProp exAlice ''createdAt'' = JDate 1000"
    by (simp add: exAlice_eq getProp_def)
  have c: "fs_beginTransaction toISO exFileSystem
       = Inr (exFileSystem\<lparr>fs_inTransaction := True,
                fs_transactionData := Some (jsonCopyData toISO exData)\<rparr>)"
    by (simp add: fs_beginTransaction_def exFileSystem_def)
  have d: "fs_rollback (exFileSystem\<lparr>fs_inTransaction := True,
                fs_transactionData := Some (jsonCopyData toISO exData)\<rparr>)
       = Inr (exFileSystem\<lparr>data := jsonCopyData toISO exData\<rparr>)"
    by (simp add: fs_rollback_def exFileSystem_def)
  have users: "fs_users (jsonCopyData toISO exData) = [exAliceJson toISO, jsonCopyObj toISO exBob]"
    by (simp add: jsonCopyData_def exData_def jsonCopyObj_exAlice)
  have idj: "hasId ''u1'' (exAliceJson toISO)"
    by (simp add: hasId_iff exAliceJson_def getProp_def)
  have e: "fs_getUserById staticValidator ''u1'' (exFileSystem\<lparr>data := jsonCopyData toISO exData\<rparr>)
       = Inr (Some (exAliceJson toISO))"
    by (simp add: fs_getUserById_def staticValidator_simps users idj)
  have f: "getProp (exAliceJson toISO) ''createdAt'' = JStr (toISO 1000)"
    by (simp add: exAliceJson_def getProp_def)
  have "exAliceJson toISO \<noteq> exAlice"
    by (simp add: exAliceJson_def exAlice_eq)
  then have ne: "fs_users (jsonCopyData toISO exData) \<noteq> fs_users (data exFileSystem)"
    unfolding exFileSystem_def by (simp add: users) (simp add: exData_def)
  have g: "exFileSystem\<lparr>data := jsonCopyData toISO exData\<rparr> \<noteq> exFileSystem"
  proof
    assume eq: "exFileSystem\<lparr>data := jsonCopyData toISO exData\<rparr> = exFileSystem"
    from arg_cong [OF eq, of data] have "jsonCopyData toISO exData = data exFileSystem"
      by simp
    with ne show False by simp
  qed
  from a b c d e f g show ?thesis by (intro conjI)
qed

end
